theory Spec2Isabelle
  imports Complex_Main "HOL-Library.AList"
begin

section \<open>Numbers and numeric strings\<close>

text \<open>
  The client (\<^verbatim>\<open>src/wsClient.ts\<close>) computes with JavaScript numbers obtained from
  numeric strings by \<^verbatim>\<open>parseFloat\<close>. A number is modelled as \<open>NaN\<close>, an
  infinity or an exact rational: the rounding of IEEE-754 doubles is not modelled, so the
  model agrees with the code wherever the code's arithmetic is exact (as it is on the
  integer-valued examples below), and on every comparison.
\<close>

datatype jsnum = NaN | NegInf | Fin rat | PosInf

fun jadd :: "jsnum \<Rightarrow> jsnum \<Rightarrow> jsnum" where
  "jadd (Fin a) (Fin b) = Fin (a + b)"
| "jadd NaN _ = NaN"
| "jadd _ NaN = NaN"
| "jadd PosInf NegInf = NaN"
| "jadd NegInf PosInf = NaN"
| "jadd PosInf _ = PosInf"
| "jadd _ PosInf = PosInf"
| "jadd NegInf _ = NegInf"
| "jadd _ NegInf = NegInf"

fun jsign :: "jsnum \<Rightarrow> int" where
  "jsign NaN = 0"
| "jsign NegInf = -1"
| "jsign PosInf = 1"
| "jsign (Fin a) = (if a < 0 then -1 else if a = 0 then 0 else 1)"

fun jmul :: "jsnum \<Rightarrow> jsnum \<Rightarrow> jsnum" where
  "jmul (Fin a) (Fin b) = Fin (a * b)"
| "jmul NaN _ = NaN"
| "jmul _ NaN = NaN"
| "jmul x y = (if jsign x = 0 \<or> jsign y = 0 then NaN
               else if jsign x = jsign y then PosInf else NegInf)"

text \<open>The comparisons \<^verbatim>\<open><\<close> and \<^verbatim>\<open><=\<close>: false whenever an operand is \<open>NaN\<close>.\<close>

fun jlt :: "jsnum \<Rightarrow> jsnum \<Rightarrow> bool" where
  "jlt (Fin a) (Fin b) = (a < b)"
| "jlt NaN _ = False"
| "jlt _ NaN = False"
| "jlt _ NegInf = False"
| "jlt NegInf _ = True"
| "jlt PosInf _ = False"
| "jlt _ PosInf = True"

fun jle :: "jsnum \<Rightarrow> jsnum \<Rightarrow> bool" where
  "jle (Fin a) (Fin b) = (a \<le> b)"
| "jle NaN _ = False"
| "jle _ NaN = False"
| "jle NegInf _ = True"
| "jle _ PosInf = True"
| "jle _ NegInf = False"
| "jle PosInf _ = False"

definition jgt :: "jsnum \<Rightarrow> jsnum \<Rightarrow> bool" where
  "jgt a b = jlt b a"

text \<open>
  \<^verbatim>\<open>parseFloat\<close>: leading white space is skipped, then the longest prefix that is a
  decimal literal (sign, \<^verbatim>\<open>Infinity\<close> or digits with an optional fraction and an
  optional exponent) is read; no such prefix gives \<open>NaN\<close>. Strings are byte strings, so
  only the ASCII white space characters are recognised.
\<close>

definition isDigit :: "char \<Rightarrow> bool" where
  "isDigit c = (48 \<le> (of_char c :: nat) \<and> (of_char c :: nat) \<le> 57)"

definition isSpace :: "char \<Rightarrow> bool" where
  "isSpace c = ((of_char c :: nat) \<in> {9, 10, 11, 12, 13, 32})"

definition digitsVal :: "string \<Rightarrow> nat" where
  "digitsVal ds = foldl (\<lambda>a c. 10 * a + (of_char c - 48)) 0 ds"

definition scale10 :: "rat \<Rightarrow> int \<Rightarrow> rat" where
  "scale10 r e = (if 0 \<le> e then r * 10 ^ nat e else r / 10 ^ nat (- e))"

definition parseExponent :: "string \<Rightarrow> int" where
  "parseExponent s =
     (case s of
        [] \<Rightarrow> 0
      | c # r \<Rightarrow>
          if c = CHR ''e'' \<or> c = CHR ''E'' then
            (case r of
               [] \<Rightarrow> 0
             | d # r' \<Rightarrow>
                 if d = CHR ''-'' then
                   (if takeWhile isDigit r' = [] then 0 else - int (digitsVal (takeWhile isDigit r')))
                 else if d = CHR ''+'' then int (digitsVal (takeWhile isDigit r'))
                 else int (digitsVal (takeWhile isDigit r)))
          else 0)"

definition parseUnsigned :: "string \<Rightarrow> jsnum" where
  "parseUnsigned s =
     (if take 8 s = ''Infinity'' then PosInf
      else
        let ip = takeWhile isDigit s;
            r1 = dropWhile isDigit s;
            fp = (case r1 of [] \<Rightarrow> [] | c # r \<Rightarrow> if c = CHR ''.'' then takeWhile isDigit r else []);
            r2 = (case r1 of [] \<Rightarrow> [] | c # r \<Rightarrow> if c = CHR ''.'' then dropWhile isDigit r else r1)
        in if ip = [] \<and> fp = [] then NaN
           else Fin (scale10 (of_nat (digitsVal (ip @ fp))) (parseExponent r2 - int (length fp))))"

definition jneg :: "jsnum \<Rightarrow> jsnum" where
  "jneg x = (case x of NaN \<Rightarrow> NaN | NegInf \<Rightarrow> PosInf | PosInf \<Rightarrow> NegInf | Fin a \<Rightarrow> Fin (- a))"

definition parseFloat :: "string \<Rightarrow> jsnum" where
  "parseFloat s =
     (case dropWhile isSpace s of
        [] \<Rightarrow> NaN
      | c # r \<Rightarrow>
          if c = CHR ''-'' then jneg (parseUnsigned r)
          else if c = CHR ''+'' then parseUnsigned r
          else parseUnsigned (c # r))"

text \<open>
  A string-valued field of a message may be absent (\<^verbatim>\<open>undefined\<close>):
  \<^verbatim>\<open>parseFloat(undefined)\<close> is \<open>NaN\<close>, and \<^verbatim>\<open>x || d\<close> is \<open>d\<close> when \<open>x\<close> is absent
  or the empty string.
\<close>

definition parseFloatField :: "string option \<Rightarrow> jsnum" where
  "parseFloatField f = (case f of None \<Rightarrow> NaN | Some s \<Rightarrow> parseFloat s)"

definition orDefault :: "string option \<Rightarrow> string \<Rightarrow> string" where
  "orDefault f d = (case f of None \<Rightarrow> d | Some s \<Rightarrow> if s = [] then d else s)"

section \<open>Messages\<close>

text \<open>
  The fields of an account-update (\<^verbatim>\<open>webData2\<close>) message that the client reads, after
  \<^verbatim>\<open>WebData2Message\<close> and \<^verbatim>\<open>SpotBalance\<close> of \<^verbatim>\<open>src/types.ts\<close>. The code guards
  the numeric strings with \<^verbatim>\<open>?.\<close> and \<^verbatim>\<open>||\<close>, so they are optional here.
\<close>

record SpotBalance =
  coin :: string
  total :: "string option"
  entryNtl :: "string option"

record MarginSummary =
  accountValue :: "string option"

record ClearinghouseState =
  marginSummary :: "MarginSummary option"
  crossMarginSummary :: "MarginSummary option"
  withdrawable :: "string option"

record SpotState =
  balances :: "SpotBalance list"

record WebData2Data =
  user :: string
  serverTime :: int
  clearinghouseState :: "ClearinghouseState option"
  spotState :: "SpotState option"

record AllMids =
  mids :: "(string \<times> string) list"

datatype WebSocketMessage =
  WebData2Message WebData2Data
| AllMidsMessage AllMids
| OtherMessage string

fun channel :: "WebSocketMessage \<Rightarrow> string" where
  "channel (WebData2Message _) = ''webData2''"
| "channel (AllMidsMessage _) = ''allMids''"
| "channel (OtherMessage c) = c"

datatype SubscriptionType = webData2 | allMids

definition SUBSCRIPTION_TYPES :: "SubscriptionType list" where
  "SUBSCRIPTION_TYPES = [webData2, allMids]"

section \<open>Price cache\<close>

text \<open>
  \<^verbatim>\<open>latestPrices\<close> and \<^verbatim>\<open>tokenToAllMidsMapping\<close> are JavaScript \<^verbatim>\<open>Map\<close>s: association
  lists in insertion order, read with \<open>map_of\<close> and written with \<open>AList.update\<close>.
\<close>

type_synonym prices = "(string \<times> string) list"

definition updatePriceData :: "AllMids \<Rightarrow> prices \<Rightarrow> prices" where
  "updatePriceData allMidsData latestPrices =
     foldl (\<lambda>lp (c, price). AList.update c price lp) latestPrices (mids allMidsData)"

definition getTokenPrice :: "prices \<Rightarrow> string \<Rightarrow> string option" where
  "getTokenPrice latestPrices c =
     (case map_of latestPrices c of
        None \<Rightarrow> None
      | Some p \<Rightarrow> if p = [] then None else Some p)"

definition getSpotTokenPrice :: "prices \<Rightarrow> (string \<times> string) list \<Rightarrow> string \<Rightarrow> string option" where
  "getSpotTokenPrice latestPrices tokenToAllMidsMapping spotCoin =
     (if spotCoin = ''USDC'' then Some ''1.0''
      else
        (case map_of tokenToAllMidsMapping spotCoin of
           Some allMidsKey \<Rightarrow>
             if allMidsKey \<noteq> [] then getTokenPrice latestPrices allMidsKey
             else getTokenPrice latestPrices spotCoin
         | None \<Rightarrow> getTokenPrice latestPrices spotCoin))"

section \<open>Valuation\<close>

definition addEntryNtl :: "jsnum \<Rightarrow> SpotBalance \<Rightarrow> jsnum" where
  "addEntryNtl totalValue balance =
     (if coin balance = ''USDC'' then jadd totalValue (parseFloatField (total balance))
      else jadd totalValue (parseFloat (orDefault (entryNtl balance) ''0'')))"

definition calculateTotalAccountValue :: "string \<Rightarrow> SpotBalance list \<Rightarrow> jsnum" where
  "calculateTotalAccountValue clearinghouseValue spotBalances =
     foldl addEntryNtl (parseFloat clearinghouseValue) spotBalances"

definition addCurrentPrice ::
  "prices \<Rightarrow> (string \<times> string) list \<Rightarrow> jsnum \<times> (string \<times> string) list \<Rightarrow> SpotBalance
    \<Rightarrow> jsnum \<times> (string \<times> string) list" where
  "addCurrentPrice latestPrices tokenToAllMidsMapping acc balance =
     (let totalValue = fst acc; pricesUsed = snd acc;
          tokenAmount = parseFloat (orDefault (total balance) ''0'')
      in if jle tokenAmount (Fin 0) then (totalValue, pricesUsed)
         else if coin balance = ''USDC'' then
           (jadd totalValue tokenAmount, AList.update (coin balance) ''1.00'' pricesUsed)
         else
           (case getSpotTokenPrice latestPrices tokenToAllMidsMapping (coin balance) of
              Some currentPrice \<Rightarrow>
                (jadd totalValue (jmul tokenAmount (parseFloat currentPrice)),
                 AList.update (coin balance) currentPrice pricesUsed)
            | None \<Rightarrow>
                (jadd totalValue (parseFloat (orDefault (entryNtl balance) ''0'')),
                 AList.update (coin balance)
                   (''entryNtl:'' @ orDefault (entryNtl balance) ''0'') pricesUsed)))"

definition calculateTotalAccountValueWithCurrentPrices ::
  "prices \<Rightarrow> (string \<times> string) list \<Rightarrow> string \<Rightarrow> SpotBalance list
    \<Rightarrow> jsnum \<times> (string \<times> string) list" where
  "calculateTotalAccountValueWithCurrentPrices latestPrices tokenToAllMidsMapping
       clearinghouseValue spotBalances =
     foldl (addCurrentPrice latestPrices tokenToAllMidsMapping)
       (parseFloat clearinghouseValue, []) spotBalances"

text \<open>
  The snapshot built by \<^verbatim>\<open>createHistoricalDataEntry\<close>. \<^verbatim>\<open>totalAccountValue\<close> is stored
  as \<^verbatim>\<open>totalValue.toString()\<close> and read back with \<^verbatim>\<open>parseFloat\<close>, which returns the
  same number, so the field holds the number. \<^verbatim>\<open>localTime\<close> is a rendering of
  \<^verbatim>\<open>serverTime\<close> by \<^verbatim>\<open>Intl.DateTimeFormat\<close>, which throws a \<^verbatim>\<open>RangeError\<close> on a time
  value outside the range of \<^verbatim>\<open>Date\<close>; the rendered text itself is not modelled.
\<close>

datatype PriceSource = currentPrices | entryNtlSource

datatype error = RangeError

record HistoricalEntry =
  totalAccountValue :: jsnum
  clearinghouseValue :: string
  spotBalance :: "SpotBalance list"
  pricesUsed :: "(string \<times> string) list"
  entryServerTime :: int
  priceSource :: PriceSource

definition validTime :: "int \<Rightarrow> bool" where
  "validTime t = (\<bar>t\<bar> \<le> 8640000000000000)"

definition recordEntryNtl :: "(string \<times> string) list \<Rightarrow> SpotBalance \<Rightarrow> (string \<times> string) list" where
  "recordEntryNtl pu balance =
     (if jgt (parseFloat (orDefault (total balance) ''0'')) (Fin 0) then
        (if coin balance = ''USDC'' then AList.update (coin balance) ''1.00'' pu
         else AList.update (coin balance) (''entryNtl:'' @ orDefault (entryNtl balance) ''0'') pu)
      else pu)"

text \<open>\<^verbatim>\<open>data.clearinghouseState?.marginSummary?.accountValue\<close>\<close>

definition marginAccountValue :: "WebData2Data \<Rightarrow> string option" where
  "marginAccountValue data =
     (case clearinghouseState data of
        None \<Rightarrow> None
      | Some cs \<Rightarrow> (case marginSummary cs of None \<Rightarrow> None | Some ms \<Rightarrow> accountValue ms))"

definition createHistoricalDataEntry ::
  "prices \<Rightarrow> (string \<times> string) list \<Rightarrow> WebData2Data \<Rightarrow> error + HistoricalEntry" where
  "createHistoricalDataEntry latestPrices tokenToAllMidsMapping data =
     (let clearinghouseValue = orDefault (marginAccountValue data) ''0'';
          spotBalances = (case spotState data of None \<Rightarrow> [] | Some s \<Rightarrow> balances s);
          useCurrentPrices = (allMids \<in> set SUBSCRIPTION_TYPES \<and> length latestPrices > 0);
          result =
            (if useCurrentPrices then
               calculateTotalAccountValueWithCurrentPrices latestPrices tokenToAllMidsMapping
                 clearinghouseValue spotBalances
             else
               (calculateTotalAccountValue clearinghouseValue spotBalances,
                foldl recordEntryNtl [] spotBalances))
      in if \<not> validTime (serverTime data) then Inl RangeError
         else Inr \<lparr> totalAccountValue = fst result,
                    clearinghouseValue = clearinghouseValue,
                    spotBalance = spotBalances,
                    pricesUsed = snd result,
                    entryServerTime = serverTime data,
                    priceSource = (if useCurrentPrices then currentPrices else entryNtlSource) \<rparr>)"

section \<open>Client state\<close>

datatype ClientMode = continuous | oneOff

datatype DataSaveMode = saveAll | spotAndPerps | historical

datatype ConnectionStatus = connected | disconnected | reconnecting

text \<open>
  A connection id \<^verbatim>\<open>conn-n\<close> is the number \<open>n\<close>; a WebSocket is a handle, numbered in
  the order of creation. Times are milliseconds (\<^verbatim>\<open>Date.now()\<close>), given to each handler.
\<close>

record ConnectionInfo =
  ws :: "nat option"
  userAddresses :: "string list"
  isConnected :: bool
  reconnectAttempts :: nat
  lastHeartbeat :: int
  subscriptionTypes :: "SubscriptionType list"

record ConnectionDetails =
  users :: "string list"
  status :: ConnectionStatus
  messagesCount :: nat

record ConnectionStats =
  totalConnections :: nat
  activeConnections :: nat
  totalUsers :: nat
  messagesReceived :: nat
  lastUpdate :: int
  connectionDetails :: "(nat \<times> ConnectionDetails) list"

record LowestValueEvent =
  timestamp :: int
  eventAccountValue :: jsnum
  eventMarginSummary :: MarginSummary
  eventCrossMarginSummary :: "MarginSummary option"
  eventWithdrawable :: "string option"
  eventServerTime :: int
  eventUser :: string

text \<open>
  A file holds the JSON text the client wrote: a log of snapshots, a single snapshot, a log
  of raw messages, a log of lowest-value events, the token metadata, or text that
  \<^verbatim>\<open>JSON.parse\<close> rejects. The file system is part of the state: \<open>files\<close> is what is
  on disk and \<open>unwritable\<close> is the set of paths on which \<^verbatim>\<open>fs.writeFileSync\<close> throws at
  present (a full disk, a read-only file); it is set by the environment, never by the
  client. A read that throws has the effect of text that does not parse, since both happen
  inside the same \<^verbatim>\<open>try\<close>. The creation of directories is not modelled.
\<close>

datatype fileContent =
  HistoricalLog "HistoricalEntry list"
| LowestEntry HistoricalEntry
| RawLog "WebData2Data list"
| EventLog "LowestValueEvent list"
| SpotMeta
| Unparsable

datatype Subscription = SubscribeWebData2 string | SubscribeAllMids

record Client =
  latestPrices :: prices
  tokenToAllMidsMapping :: "(string \<times> string) list"
  connections :: "(nat \<times> ConnectionInfo) list"
  userToConnectionMap :: "(string \<times> nat) list"
  today :: string
  clientMode :: ClientMode
  dataSaveMode :: DataSaveMode
  healthCheckInterval :: bool
  connectionStats :: ConnectionStats
  userDataFiles :: "(string \<times> string) list"
  userLowestValueFiles :: "(string \<times> string) list"
  userExistingData :: "(string \<times> WebData2Data list) list"
  userExistingLowestData :: "(string \<times> LowestValueEvent list) list"
  userLowestAccountValues :: "(string \<times> jsnum option) list"
  userHighestAccountValues :: "(string \<times> jsnum option) list"
  userHistoricalDataFiles :: "(string \<times> string) list"
  userHistoricalLowestFiles :: "(string \<times> string) list"
  userExistingHistoricalData :: "(string \<times> HistoricalEntry list) list"
  userLowestTotalAccountValues :: "(string \<times> jsnum option) list"
  lastAllMidsUpdate :: int
  allMidsUpdateInterval :: int
  totalMessagesReceived :: nat
  files :: "string \<rightharpoonup> fileContent"
  unwritable :: "string set"
  nextSocket :: nat
  closedSockets :: "nat list"
  sentMessages :: "(nat \<times> Subscription) list"
  reconnectTimers :: "(nat \<times> nat) list"

definition RECONNECT_DELAY_MS :: nat where
  "RECONNECT_DELAY_MS = 5000"

definition MAX_USERS_PER_CONNECTION :: nat where
  "MAX_USERS_PER_CONNECTION = 3"

definition MAX_RECONNECT_ATTEMPTS :: nat where
  "MAX_RECONNECT_ATTEMPTS = 5"

definition HEALTH_CHECK_INTERVAL :: int where
  "HEALTH_CHECK_INTERVAL = 30000"

section \<open>Partitioning accounts over connections\<close>

text \<open>
  The grouping loop of \<^verbatim>\<open>setupConnectionGroups\<close>, with the group size as a parameter:
  \<^verbatim>\<open>for (let i = 0; i < userAddresses.length; i += K) groups.push(userAddresses.slice(i, i + K))\<close>.
  With \<open>K = 0\<close> the loop does not end.
\<close>

partial_function (option) groupUsers ::
  "nat \<Rightarrow> string list \<Rightarrow> nat \<Rightarrow> string list list \<Rightarrow> string list list option" where
  "groupUsers K userAddrs i connectionGroups =
     (if i < length userAddrs
      then groupUsers K userAddrs (i + K) (connectionGroups @ [take K (drop i userAddrs)])
      else Some connectionGroups)"

declare groupUsers.simps [code]

definition addConnection :: "int \<Rightarrow> Client \<Rightarrow> nat \<times> string list \<Rightarrow> Client" where
  "addConnection now st g =
     (let connectionId = fst g + 1; userGroup = snd g;
          connectionInfo = \<lparr> ws = None, userAddresses = userGroup, isConnected = False,
                             reconnectAttempts = 0, lastHeartbeat = now,
                             subscriptionTypes = SUBSCRIPTION_TYPES \<rparr>
      in st \<lparr> connections := AList.update connectionId connectionInfo (connections st),
              userToConnectionMap :=
                foldl (\<lambda>m userAddress. AList.update userAddress connectionId m)
                  (userToConnectionMap st) userGroup,
              connectionStats := (connectionStats st)
                \<lparr> connectionDetails :=
                    AList.update connectionId
                      \<lparr> users = userGroup, status = disconnected, messagesCount = 0 \<rparr>
                      (connectionDetails (connectionStats st)) \<rparr> \<rparr>)"

definition setupConnectionGroups :: "nat \<Rightarrow> string list \<Rightarrow> int \<Rightarrow> Client \<Rightarrow> Client option" where
  "setupConnectionGroups K userAddrs now st =
     (case groupUsers K userAddrs 0 [] of
        None \<Rightarrow> None
      | Some connectionGroups \<Rightarrow>
          let st' = foldl (addConnection now) st
                      (zip [0..<length connectionGroups] connectionGroups)
          in Some (st' \<lparr> connectionStats := (connectionStats st')
                          \<lparr> totalConnections := length connectionGroups \<rparr> \<rparr>))"

section \<open>Persistence\<close>

text \<open>\<^verbatim>\<open>toLowerCase\<close> on the ASCII letters; the strings are byte strings.\<close>

definition toLowerChar :: "char \<Rightarrow> char" where
  "toLowerChar c =
     (case map_of (zip ''ABCDEFGHIJKLMNOPQRSTUVWXYZ'' ''abcdefghijklmnopqrstuvwxyz'') c of
        Some l \<Rightarrow> l
      | None \<Rightarrow> c)"

definition toLowerCase :: "string \<Rightarrow> string" where
  "toLowerCase s = map toLowerChar s"

definition historicalDataPath :: "string \<Rightarrow> string \<Rightarrow> string" where
  "historicalDataPath day userAddress =
     ''data/accountValueHistorical/'' @ day @ ''/'' @ toLowerCase userAddress @ ''.json''"

definition historicalLowestPath :: "string \<Rightarrow> string \<Rightarrow> string" where
  "historicalLowestPath day userAddress =
     ''data/accountValueHistorical/'' @ day @ ''/'' @ toLowerCase userAddress @ ''-lowest.json''"

definition dataPath :: "string \<Rightarrow> string \<Rightarrow> string" where
  "dataPath day userAddress =
     ''data/dataFromSubscription/'' @ day @ ''/'' @ toLowerCase userAddress @ ''.json''"

definition lowestValuePath :: "string \<Rightarrow> string \<Rightarrow> string" where
  "lowestValuePath day userAddress =
     ''data/dataFromSubscription/'' @ day @ ''/'' @ toLowerCase userAddress
       @ ''-lowestAccountValue.json''"

definition spotMetaPath :: "string \<Rightarrow> string" where
  "spotMetaPath day = ''dataFromSubscription/'' @ day @ ''/spotMeta.json''"

definition initializeTokenMapping :: "Client \<Rightarrow> Client" where
  "initializeTokenMapping st =
     (case files st (spotMetaPath (today st)) of
        Some SpotMeta \<Rightarrow>
          st \<lparr> tokenToAllMidsMapping :=
                 AList.update ''USDC'' ''USDC''
                   (AList.update ''USOL'' ''SOL'' (tokenToAllMidsMapping st)) \<rparr>
      | _ \<Rightarrow> st)"

definition initializeUser :: "Client \<Rightarrow> string \<Rightarrow> Client" where
  "initializeUser st userAddress =
     (let st1 =
        (if dataSaveMode st = historical then
           st \<lparr> userHistoricalDataFiles :=
                  AList.update userAddress (historicalDataPath (today st) userAddress)
                    (userHistoricalDataFiles st),
                userHistoricalLowestFiles :=
                  AList.update userAddress (historicalLowestPath (today st) userAddress)
                    (userHistoricalLowestFiles st),
                userExistingHistoricalData :=
                  AList.update userAddress [] (userExistingHistoricalData st),
                userLowestTotalAccountValues :=
                  AList.update userAddress None (userLowestTotalAccountValues st) \<rparr>
         else
           st \<lparr> userDataFiles :=
                  AList.update userAddress (dataPath (today st) userAddress) (userDataFiles st),
                userLowestValueFiles :=
                  AList.update userAddress (lowestValuePath (today st) userAddress)
                    (userLowestValueFiles st) \<rparr>)
      in st1 \<lparr> userExistingData := AList.update userAddress [] (userExistingData st1),
               userExistingLowestData := AList.update userAddress [] (userExistingLowestData st1),
               userLowestAccountValues := AList.update userAddress None (userLowestAccountValues st1),
               userHighestAccountValues :=
                 AList.update userAddress None (userHighestAccountValues st1) \<rparr>)"

definition initializeUserData :: "string list \<Rightarrow> Client \<Rightarrow> Client" where
  "initializeUserData userAddrs st = foldl initializeUser st userAddrs"

text \<open>
  The comparisons against the tracked extremes: a tracker that is \<^verbatim>\<open>undefined\<close> (no
  entry) or \<^verbatim>\<open>null\<close> is beaten by any value.
\<close>

definition isNewLowest :: "jsnum option option \<Rightarrow> jsnum \<Rightarrow> bool" where
  "isNewLowest currentLowest v =
     (case currentLowest of None \<Rightarrow> True | Some None \<Rightarrow> True | Some (Some l) \<Rightarrow> jlt v l)"

definition isNewHighest :: "jsnum option option \<Rightarrow> jsnum \<Rightarrow> bool" where
  "isNewHighest currentHighest v =
     (case currentHighest of None \<Rightarrow> True | Some None \<Rightarrow> True | Some (Some h) \<Rightarrow> jgt v h)"

text \<open>
  \<^verbatim>\<open>fs.existsSync\<close> followed by \<^verbatim>\<open>JSON.parse(fs.readFileSync(path))\<close>: a path that is
  \<^verbatim>\<open>undefined\<close> or names no file reads as nothing. The content of each file is typed
  here; a file whose JSON has another shape than the one the client writes to that path
  is treated like text that does not parse, except in the lowest-snapshot file, where the
  code itself ignores a value without a \<^verbatim>\<open>totalAccountValue\<close>.
\<close>

definition readPath :: "Client \<Rightarrow> string option \<Rightarrow> fileContent option" where
  "readPath st path = (case path of None \<Rightarrow> None | Some p \<Rightarrow> files st p)"

definition loadEvent :: "string \<Rightarrow> Client \<Rightarrow> LowestValueEvent \<Rightarrow> Client" where
  "loadEvent userAddress st ev =
     (let v = eventAccountValue ev;
          currentLowest = map_of (userLowestAccountValues st) userAddress;
          currentHighest = map_of (userHighestAccountValues st) userAddress;
          st1 = (if isNewLowest currentLowest v
                 then st \<lparr> userLowestAccountValues :=
                             AList.update userAddress (Some v) (userLowestAccountValues st) \<rparr>
                 else st)
      in if isNewHighest currentHighest v
         then st1 \<lparr> userHighestAccountValues :=
                      AList.update userAddress (Some v) (userHighestAccountValues st1) \<rparr>
         else st1)"

definition loadUser :: "Client \<Rightarrow> string \<Rightarrow> Client" where
  "loadUser st userAddress =
     (if dataSaveMode st = historical then
        (case readPath st (map_of (userHistoricalDataFiles st) userAddress) of
           Some (HistoricalLog existingData) \<Rightarrow>
             (let st1 = st \<lparr> userExistingHistoricalData :=
                              AList.update userAddress existingData
                                (userExistingHistoricalData st) \<rparr>
              in case readPath st1 (map_of (userHistoricalLowestFiles st1) userAddress) of
                   Some (LowestEntry e) \<Rightarrow>
                     st1 \<lparr> userLowestTotalAccountValues :=
                             AList.update userAddress (Some (totalAccountValue e))
                               (userLowestTotalAccountValues st1) \<rparr>
                 | _ \<Rightarrow> st1)
         | Some _ \<Rightarrow> st
         | None \<Rightarrow>
             (case readPath st (map_of (userHistoricalLowestFiles st) userAddress) of
                Some (LowestEntry e) \<Rightarrow>
                  st \<lparr> userLowestTotalAccountValues :=
                         AList.update userAddress (Some (totalAccountValue e))
                           (userLowestTotalAccountValues st) \<rparr>
              | _ \<Rightarrow> st))
      else
        (case readPath st (map_of (userDataFiles st) userAddress) of
           Some (RawLog existingData) \<Rightarrow>
             (let st1 = st \<lparr> userExistingData :=
                              AList.update userAddress existingData (userExistingData st) \<rparr>
              in case readPath st1 (map_of (userLowestValueFiles st1) userAddress) of
                   Some (EventLog existingLowestData) \<Rightarrow>
                     foldl (loadEvent userAddress)
                       (st1 \<lparr> userExistingLowestData :=
                                AList.update userAddress existingLowestData
                                  (userExistingLowestData st1) \<rparr>)
                       existingLowestData
                 | _ \<Rightarrow> st1)
         | Some _ \<Rightarrow> st
         | None \<Rightarrow>
             (case readPath st (map_of (userLowestValueFiles st) userAddress) of
                Some (EventLog existingLowestData) \<Rightarrow>
                  foldl (loadEvent userAddress)
                    (st \<lparr> userExistingLowestData :=
                            AList.update userAddress existingLowestData
                              (userExistingLowestData st) \<rparr>)
                    existingLowestData
              | _ \<Rightarrow> st)))"

definition loadExistingData :: "Client \<Rightarrow> Client" where
  "loadExistingData st = foldl loadUser st (map fst (userExistingData st))"

text \<open>
  \<^verbatim>\<open>Array.from(this.userExistingData.keys()).find(...)\<close> together with the test
  \<^verbatim>\<open>if (!originalUserAddress)\<close> that both callers apply to its result: an address that is
  the empty string counts as not found.
\<close>

definition findOriginalUserAddress :: "Client \<Rightarrow> string \<Rightarrow> string option" where
  "findOriginalUserAddress st userAddress =
     (case find (\<lambda>addr. toLowerCase addr = toLowerCase userAddress)
             (map fst (userExistingData st)) of
        None \<Rightarrow> None
      | Some addr \<Rightarrow> if addr = [] then None else Some addr)"

text \<open>
  \<^verbatim>\<open>fs.writeFileSync(path, JSON.stringify(content))\<close>: \<open>None\<close> when it throws. Each caller
  runs it inside a \<^verbatim>\<open>try\<close> whose \<^verbatim>\<open>catch\<close> logs the error, so the caller ends there and
  keeps what it had changed in memory before the write.
\<close>

definition writeFileSync :: "string \<Rightarrow> fileContent \<Rightarrow> Client \<Rightarrow> Client option" where
  "writeFileSync path content st =
     (if path \<in> unwritable st then None
      else Some (st \<lparr> files := (files st)(path \<mapsto> content) \<rparr>))"

definition nonEmptyPath :: "string option \<Rightarrow> string option" where
  "nonEmptyPath p = (case p of None \<Rightarrow> None | Some s \<Rightarrow> if s = [] then None else Some s)"

definition saveHistoricalData :: "WebData2Data \<Rightarrow> Client \<Rightarrow> Client" where
  "saveHistoricalData data st =
     (case findOriginalUserAddress st (user data) of
        None \<Rightarrow> st
      | Some originalUserAddress \<Rightarrow>
          (case createHistoricalDataEntry (latestPrices st) (tokenToAllMidsMapping st) data of
             Inl _ \<Rightarrow> st
           | Inr historicalEntry \<Rightarrow>
               let existingData =
                     (case map_of (userExistingHistoricalData st) originalUserAddress of
                        None \<Rightarrow> [] | Some l \<Rightarrow> l) @ [historicalEntry];
                   st1 = st \<lparr> userExistingHistoricalData :=
                               AList.update originalUserAddress existingData
                                 (userExistingHistoricalData st) \<rparr>
               in case nonEmptyPath (map_of (userHistoricalDataFiles st1) originalUserAddress) of
                    None \<Rightarrow> st1
                  | Some filePath \<Rightarrow>
                      (case writeFileSync filePath (HistoricalLog existingData) st1 of
                         None \<Rightarrow> st1
                       | Some st2 \<Rightarrow>
                           if isNewLowest
                                (map_of (userLowestTotalAccountValues st2) originalUserAddress)
                                (totalAccountValue historicalEntry)
                           then
                             let st3 = st2 \<lparr> userLowestTotalAccountValues :=
                                               AList.update originalUserAddress
                                                 (Some (totalAccountValue historicalEntry))
                                                 (userLowestTotalAccountValues st2) \<rparr>
                             in case nonEmptyPath
                                       (map_of (userHistoricalLowestFiles st3) originalUserAddress) of
                                  None \<Rightarrow> st3
                                | Some lowestFilePath \<Rightarrow>
                                    (case writeFileSync lowestFilePath (LowestEntry historicalEntry) st3 of
                                       None \<Rightarrow> st3
                                     | Some st4 \<Rightarrow> st4)
                           else st2)))"

definition saveData :: "WebData2Data \<Rightarrow> Client \<Rightarrow> Client" where
  "saveData data st =
     (if user data = [] then st
      else if dataSaveMode st = historical then saveHistoricalData data st
      else
        (case findOriginalUserAddress st (user data) of
           None \<Rightarrow> st
         | Some originalUserAddress \<Rightarrow>
             if \<not> validTime (serverTime data) then st
             else if map_of (userDataFiles st) originalUserAddress = None then st
             else
               let existingData =
                     (case map_of (userExistingData st) originalUserAddress of
                        None \<Rightarrow> [] | Some l \<Rightarrow> l) @ [data];
                   st1 = st \<lparr> userExistingData :=
                               AList.update originalUserAddress existingData (userExistingData st) \<rparr>
               in case nonEmptyPath (map_of (userDataFiles st1) originalUserAddress) of
                    None \<Rightarrow> st1
                  | Some filePath \<Rightarrow>
                      (case writeFileSync filePath (RawLog existingData) st1 of
                         None \<Rightarrow> st1
                       | Some st2 \<Rightarrow> st2)))"

definition saveLowestValueEvent :: "LowestValueEvent \<Rightarrow> Client \<Rightarrow> Client" where
  "saveLowestValueEvent ev st =
     (if eventUser ev \<noteq> [] \<and> map_of (userLowestValueFiles st) (eventUser ev) \<noteq> None then
        let existingLowestData =
              (case map_of (userExistingLowestData st) (eventUser ev) of
                 None \<Rightarrow> [] | Some l \<Rightarrow> l) @ [ev];
            st1 = st \<lparr> userExistingLowestData :=
                        AList.update (eventUser ev) existingLowestData (userExistingLowestData st) \<rparr>
        in case nonEmptyPath (map_of (userLowestValueFiles st1) (eventUser ev)) of
             None \<Rightarrow> st1
           | Some lowestFilePath \<Rightarrow>
               (case writeFileSync lowestFilePath (EventLog existingLowestData) st1 of
                  None \<Rightarrow> st1
                | Some st2 \<Rightarrow> st2)
      else st)"

definition processWebData2Message :: "WebData2Data \<Rightarrow> int \<Rightarrow> Client \<Rightarrow> Client" where
  "processWebData2Message data now st =
     (case clearinghouseState data of
        None \<Rightarrow> st
      | Some cs \<Rightarrow>
          (case marginSummary cs of
             None \<Rightarrow> st
           | Some ms \<Rightarrow>
               let v = parseFloatField (accountValue ms);
                   currentLowest = map_of (userLowestAccountValues st) (user data);
                   currentHighest = map_of (userHighestAccountValues st) (user data);
                   st1 =
                     (if isNewLowest currentLowest v then
                        saveLowestValueEvent
                          \<lparr> timestamp = now, eventAccountValue = v, eventMarginSummary = ms,
                            eventCrossMarginSummary = crossMarginSummary cs,
                            eventWithdrawable = withdrawable cs,
                            eventServerTime = serverTime data, eventUser = user data \<rparr>
                          (st \<lparr> userLowestAccountValues :=
                                  AList.update (user data) (Some v) (userLowestAccountValues st) \<rparr>)
                      else st)
               in if isNewHighest currentHighest v
                  then st1 \<lparr> userHighestAccountValues :=
                               AList.update (user data) (Some v) (userHighestAccountValues st1) \<rparr>
                  else st1))"

definition processAllMidsMessage :: "AllMids \<Rightarrow> int \<Rightarrow> Client \<Rightarrow> Client" where
  "processAllMidsMessage allMidsData currentTime st =
     (if currentTime - lastAllMidsUpdate st \<ge> allMidsUpdateInterval st
      then st \<lparr> latestPrices := updatePriceData allMidsData (latestPrices st),
                lastAllMidsUpdate := currentTime \<rparr>
      else st)"

section \<open>Connection lifecycle\<close>

text \<open>
  \<^verbatim>\<open>connectionDetails.get(connectionId)!\<close> is a \<^verbatim>\<open>TypeError\<close> when the entry is missing.
  Inside \<^verbatim>\<open>handleMessage\<close> the error is caught; in the other handlers it ends the handler.
\<close>

datatype handlerError = TypeError

definition updateConnectionStats :: "int \<Rightarrow> Client \<Rightarrow> Client" where
  "updateConnectionStats now st =
     st \<lparr> connectionStats := (connectionStats st)
            \<lparr> activeConnections := length (filter (\<lambda>c. isConnected (snd c)) (connections st)),
              lastUpdate := now \<rparr> \<rparr>"

definition setStatus :: "nat \<Rightarrow> ConnectionStatus \<Rightarrow> Client \<Rightarrow> handlerError + Client" where
  "setStatus connectionId s st =
     (case map_of (connectionDetails (connectionStats st)) connectionId of
        None \<Rightarrow> Inl TypeError
      | Some details \<Rightarrow>
          Inr (st \<lparr> connectionStats := (connectionStats st)
                    \<lparr> connectionDetails :=
                        AList.update connectionId (details \<lparr> status := s \<rparr>)
                          (connectionDetails (connectionStats st)) \<rparr> \<rparr>))"

definition connectSingle :: "nat \<Rightarrow> Client \<Rightarrow> Client" where
  "connectSingle connectionId st =
     (case map_of (connections st) connectionId of
        None \<Rightarrow> st
      | Some connectionInfo \<Rightarrow>
          st \<lparr> connections :=
                 AList.update connectionId (connectionInfo \<lparr> ws := Some (nextSocket st) \<rparr>)
                   (connections st),
               nextSocket := nextSocket st + 1 \<rparr>)"

definition setupSubscriptions :: "nat \<Rightarrow> Client \<Rightarrow> Client" where
  "setupSubscriptions connectionId st =
     (case map_of (connections st) connectionId of
        None \<Rightarrow> st
      | Some connectionInfo \<Rightarrow>
          (case ws connectionInfo of
             None \<Rightarrow> st
           | Some h \<Rightarrow>
               let subscriptionMessages =
                     (if webData2 \<in> set (subscriptionTypes connectionInfo)
                      then map SubscribeWebData2 (userAddresses connectionInfo) else [])
                     @ (if allMids \<in> set (subscriptionTypes connectionInfo)
                        then [SubscribeAllMids] else [])
               in st \<lparr> sentMessages := sentMessages st @ map (Pair h) subscriptionMessages \<rparr>))"

definition handleReconnect :: "nat \<Rightarrow> Client \<Rightarrow> handlerError + Client" where
  "handleReconnect connectionId st =
     (case map_of (connections st) connectionId of
        None \<Rightarrow> Inr st
      | Some connectionInfo \<Rightarrow>
          if reconnectAttempts connectionInfo < MAX_RECONNECT_ATTEMPTS then
            (let attempts = reconnectAttempts connectionInfo + 1;
                 st1 = st \<lparr> connections :=
                             AList.update connectionId
                               (connectionInfo \<lparr> reconnectAttempts := attempts \<rparr>) (connections st) \<rparr>
             in case setStatus connectionId reconnecting st1 of
                  Inl e \<Rightarrow> Inl e
                | Inr st2 \<Rightarrow>
                    Inr (st2 \<lparr> reconnectTimers :=
                                reconnectTimers st2
                                  @ [(RECONNECT_DELAY_MS * 2 ^ (attempts - 1), connectionId)] \<rparr>))
          else setStatus connectionId disconnected st)"

text \<open>The four event handlers that \<^verbatim>\<open>connectSingle\<close> registers on the socket.\<close>

definition onOpen :: "nat \<Rightarrow> int \<Rightarrow> Client \<Rightarrow> handlerError + Client" where
  "onOpen connectionId now st =
     (case map_of (connections st) connectionId of
        None \<Rightarrow> Inr st
      | Some connectionInfo \<Rightarrow>
          let st1 = updateConnectionStats now
                      (st \<lparr> connections :=
                              AList.update connectionId
                                (connectionInfo \<lparr> isConnected := True, reconnectAttempts := 0,
                                                  lastHeartbeat := now \<rparr>) (connections st) \<rparr>)
          in case setStatus connectionId connected st1 of
               Inl e \<Rightarrow> Inl e
             | Inr st2 \<Rightarrow> Inr (setupSubscriptions connectionId st2))"

definition onClose :: "nat \<Rightarrow> int \<Rightarrow> Client \<Rightarrow> handlerError + Client" where
  "onClose connectionId now st =
     (case map_of (connections st) connectionId of
        None \<Rightarrow> Inr st
      | Some connectionInfo \<Rightarrow>
          let st1 = updateConnectionStats now
                      (st \<lparr> connections :=
                              AList.update connectionId (connectionInfo \<lparr> isConnected := False \<rparr>)
                                (connections st) \<rparr>)
          in case setStatus connectionId disconnected st1 of
               Inl e \<Rightarrow> Inl e
             | Inr st2 \<Rightarrow>
                 if clientMode st2 = continuous then handleReconnect connectionId st2 else Inr st2)"

definition onError :: "nat \<Rightarrow> Client \<Rightarrow> Client" where
  "onError connectionId st =
     (case map_of (connections st) connectionId of
        None \<Rightarrow> st
      | Some connectionInfo \<Rightarrow>
          st \<lparr> connections :=
                 AList.update connectionId (connectionInfo \<lparr> isConnected := False \<rparr>)
                   (connections st) \<rparr>)"

text \<open>
  \<^verbatim>\<open>handleMessage\<close>: the message is \<open>None\<close> when \<^verbatim>\<open>JSON.parse\<close> throws. The whole body is
  in one \<^verbatim>\<open>try\<close>, so an error leaves what was written before it.
\<close>

definition handleMessage :: "nat \<Rightarrow> WebSocketMessage option \<Rightarrow> int \<Rightarrow> Client \<Rightarrow> Client" where
  "handleMessage connectionId parsed now st =
     (case parsed of
        None \<Rightarrow> st
      | Some message \<Rightarrow>
          let st1 =
                (case map_of (connections st) connectionId of
                   None \<Rightarrow> Inr st
                 | Some connectionInfo \<Rightarrow>
                     let sth = st \<lparr> connections :=
                                      AList.update connectionId
                                        (connectionInfo \<lparr> lastHeartbeat := now \<rparr>) (connections st) \<rparr>
                     in case map_of (connectionDetails (connectionStats sth)) connectionId of
                          None \<Rightarrow> Inl sth
                        | Some details \<Rightarrow>
                            Inr (sth \<lparr> connectionStats := (connectionStats sth)
                                       \<lparr> connectionDetails :=
                                           AList.update connectionId
                                             (details \<lparr> messagesCount := messagesCount details + 1 \<rparr>)
                                             (connectionDetails (connectionStats sth)) \<rparr> \<rparr>))
          in case st1 of
               Inl sth \<Rightarrow> sth
             | Inr st2 \<Rightarrow>
                 let st3 = st2 \<lparr> totalMessagesReceived := totalMessagesReceived st2 + 1 \<rparr>;
                     st4 = st3 \<lparr> connectionStats := (connectionStats st3)
                                  \<lparr> messagesReceived := totalMessagesReceived st3,
                                    lastUpdate := now \<rparr> \<rparr>
                 in case message of
                      WebData2Message data \<Rightarrow> processWebData2Message data now (saveData data st4)
                    | AllMidsMessage allMidsData \<Rightarrow> processAllMidsMessage allMidsData now st4
                    | OtherMessage _ \<Rightarrow> st4)"

definition checkConnection :: "int \<Rightarrow> handlerError + Client \<Rightarrow> nat \<Rightarrow> handlerError + Client" where
  "checkConnection now acc connectionId =
     (case acc of
        Inl e \<Rightarrow> Inl e
      | Inr st \<Rightarrow>
          (case map_of (connections st) connectionId of
             None \<Rightarrow> Inr st
           | Some connectionInfo \<Rightarrow>
               if isConnected connectionInfo
                  \<and> now - lastHeartbeat connectionInfo > HEALTH_CHECK_INTERVAL * 2
               then
                 (if clientMode st = continuous then
                    handleReconnect connectionId
                      (st \<lparr> connections :=
                              AList.update connectionId (connectionInfo \<lparr> isConnected := False \<rparr>)
                                (connections st) \<rparr>)
                  else Inr st)
               else Inr st))"

definition performHealthCheck :: "int \<Rightarrow> Client \<Rightarrow> handlerError + Client" where
  "performHealthCheck now st =
     (case foldl (checkConnection now) (Inr st) (map fst (connections st)) of
        Inl e \<Rightarrow> Inl e
      | Inr st' \<Rightarrow> Inr (updateConnectionStats now st'))"

definition startHealthCheck :: "Client \<Rightarrow> Client" where
  "startHealthCheck st = st \<lparr> healthCheckInterval := True \<rparr>"

text \<open>A pending reconnect timer that comes due runs \<^verbatim>\<open>connectSingle\<close>.\<close>

definition fireReconnectTimer :: "nat \<Rightarrow> Client \<Rightarrow> Client" where
  "fireReconnectTimer i st =
     (if i < length (reconnectTimers st)
      then connectSingle (snd (reconnectTimers st ! i))
             (st \<lparr> reconnectTimers := take i (reconnectTimers st) @ drop (Suc i) (reconnectTimers st) \<rparr>)
      else st)"

definition closeConnection :: "nat \<times> ConnectionInfo \<Rightarrow> nat \<times> ConnectionInfo" where
  "closeConnection c =
     (case ws (snd c) of
        None \<Rightarrow> c
      | Some h \<Rightarrow> (fst c, (snd c) \<lparr> ws := None, isConnected := False \<rparr>))"

definition disconnect :: "int \<Rightarrow> Client \<Rightarrow> Client" where
  "disconnect now st =
     updateConnectionStats now
       (st \<lparr> healthCheckInterval := False,
             closedSockets := closedSockets st @ List.map_filter (\<lambda>c. ws (snd c)) (connections st),
             connections := map closeConnection (connections st) \<rparr>)"

section \<open>Construction\<close>

text \<open>
  A fresh process: the module state is empty, the constructor runs over the configured
  addresses and the files found on disk. The connection groups use
  \<open>MAX_USERS_PER_CONNECTION\<close>.
\<close>

definition emptyClient ::
  "string list \<Rightarrow> ClientMode \<Rightarrow> DataSaveMode \<Rightarrow> string \<Rightarrow> int \<Rightarrow> (string \<rightharpoonup> fileContent) \<Rightarrow> Client" where
  "emptyClient userAddrs cm dm day now fs =
     \<lparr> latestPrices = [], tokenToAllMidsMapping = [], connections = [], userToConnectionMap = [],
       today = day, clientMode = cm, dataSaveMode = dm, healthCheckInterval = False,
       connectionStats = \<lparr> totalConnections = 0, activeConnections = 0,
                            totalUsers = length userAddrs, messagesReceived = 0,
                            lastUpdate = now, connectionDetails = [] \<rparr>,
       userDataFiles = [], userLowestValueFiles = [], userExistingData = [],
       userExistingLowestData = [], userLowestAccountValues = [], userHighestAccountValues = [],
       userHistoricalDataFiles = [], userHistoricalLowestFiles = [],
       userExistingHistoricalData = [], userLowestTotalAccountValues = [],
       lastAllMidsUpdate = 0, allMidsUpdateInterval = 5000, totalMessagesReceived = 0,
       files = fs, unwritable = {}, nextSocket = 0, closedSockets = [], sentMessages = [],
       reconnectTimers = [] \<rparr>"

definition newClient ::
  "string list \<Rightarrow> ClientMode \<Rightarrow> DataSaveMode \<Rightarrow> string \<Rightarrow> int \<Rightarrow> (string \<rightharpoonup> fileContent)
    \<Rightarrow> Client option" where
  "newClient userAddrs cm dm day now fs =
     (case setupConnectionGroups MAX_USERS_PER_CONNECTION userAddrs now
             (initializeUserData userAddrs
               (initializeTokenMapping (emptyClient userAddrs cm dm day now fs))) of
        None \<Rightarrow> None
      | Some st \<Rightarrow> Some (loadExistingData st))"

section \<open>Auxiliary definitions for the proofs\<close>

text \<open>The connection record that \<^verbatim>\<open>setupConnectionGroups\<close> creates for a group.\<close>

definition freshConnection :: "int \<Rightarrow> string list \<Rightarrow> ConnectionInfo" where
  "freshConnection now g =
     \<lparr> ws = None, userAddresses = g, isConnected = False, reconnectAttempts = 0,
       lastHeartbeat = now, subscriptionTypes = SUBSCRIPTION_TYPES \<rparr>"

text \<open>
  The account update of the valuation examples: margin value \<^verbatim>\<open>"1000.00"\<close> and the spot
  balances \<^verbatim>\<open>[{coin:"USDC", total:"50"}, {coin:"USOL", total:"2", entryNtl:"190"}]\<close>.
\<close>

definition exampleBalances :: "SpotBalance list" where
  "exampleBalances =
     [\<lparr> coin = ''USDC'', total = Some ''50'', entryNtl = None \<rparr>,
      \<lparr> coin = ''USOL'', total = Some ''2'', entryNtl = Some ''190'' \<rparr>]"

definition exampleUpdate :: "string \<Rightarrow> int \<Rightarrow> WebData2Data" where
  "exampleUpdate u t =
     \<lparr> user = u, serverTime = t,
       clearinghouseState =
         Some \<lparr> marginSummary = Some \<lparr> accountValue = Some ''1000.00'' \<rparr>,
                crossMarginSummary = None, withdrawable = None \<rparr>,
       spotState = Some \<lparr> balances = exampleBalances \<rparr> \<rparr>"

text \<open>
  An account update with one spot balance of quantity zero that still carries an entry
  notional.
\<close>

definition zeroQuantityUpdate :: WebData2Data where
  "zeroQuantityUpdate =
     \<lparr> user = ''0xab'', serverTime = 0,
       clearinghouseState =
         Some \<lparr> marginSummary = Some \<lparr> accountValue = Some ''1000.00'' \<rparr>,
                crossMarginSummary = None, withdrawable = None \<rparr>,
       spotState = Some \<lparr> balances = [\<lparr> coin = ''USOL'', total = Some ''0'', entryNtl = Some ''190'' \<rparr>] \<rparr> \<rparr>"

text \<open>
  A run of close events on one connection, and the client of a single account after
  construction, after the first connection attempt, and after the socket has opened.
\<close>

fun closeEvents :: "nat \<Rightarrow> int list \<Rightarrow> Client \<Rightarrow> handlerError + Client" where
  "closeEvents connectionId [] st = Inr st"
| "closeEvents connectionId (now # ts) st =
     (case onClose connectionId now st of
        Inl e \<Rightarrow> Inl e
      | Inr st' \<Rightarrow> closeEvents connectionId ts st')"

definition startedClient :: "ClientMode \<Rightarrow> DataSaveMode \<Rightarrow> Client" where
  "startedClient cm dm =
     (case newClient [''0xAb''] cm dm ''20250110'' 0 Map.empty of
        None \<Rightarrow> emptyClient [''0xAb''] cm dm ''20250110'' 0 Map.empty
      | Some st \<Rightarrow> connectSingle 1 (startHealthCheck st))"

definition connectedClient :: "ClientMode \<Rightarrow> DataSaveMode \<Rightarrow> Client" where
  "connectedClient cm dm =
     (case onOpen 1 1000 (startedClient cm dm) of
        Inl _ \<Rightarrow> startedClient cm dm
      | Inr st \<Rightarrow> st)"

definition detailsComplete :: "Client \<Rightarrow> bool" where
  "detailsComplete st =
     list_all (\<lambda>k. map_of (connectionDetails (connectionStats st)) k \<noteq> None)
       (map fst (connections st))"

definition droppedClient :: Client where
  "droppedClient =
     (case onClose 1 2000 (connectedClient continuous historical) of
        Inl _ \<Rightarrow> connectedClient continuous historical
      | Inr st \<Rightarrow> st)"

definition unhealthy :: "int \<Rightarrow> ConnectionInfo \<Rightarrow> bool" where
  "unhealthy now ci = (isConnected ci \<and> now - lastHeartbeat ci > HEALTH_CHECK_INTERVAL * 2)"














definition fresh :: "Client \<Rightarrow> string \<Rightarrow> bool" where
  "fresh st u =
     (map_of (userHistoricalDataFiles st) u = Some (historicalDataPath (today st) u)
      \<and> map_of (userHistoricalLowestFiles st) u = Some (historicalLowestPath (today st) u)
      \<and> map_of (userExistingHistoricalData st) u = Some []
      \<and> map_of (userLowestTotalAccountValues st) u = Some None)"

definition initialClient :: "ClientMode \<Rightarrow> int \<Rightarrow> (string \<rightharpoonup> fileContent) \<Rightarrow> Client" where
  "initialClient cm now fs =
     \<lparr> latestPrices = [], tokenToAllMidsMapping = [],
       connections = [(1, \<lparr> ws = None, userAddresses = [''0xAb''], isConnected = False,
                             reconnectAttempts = 0, lastHeartbeat = now,
                             subscriptionTypes = [webData2, allMids] \<rparr>)],
       userToConnectionMap = [(''0xAb'', 1)],
       today = ''20250110'', clientMode = cm, dataSaveMode = historical, healthCheckInterval = False,
       connectionStats = \<lparr> totalConnections = 1, activeConnections = 0,
                            totalUsers = 1, messagesReceived = 0,
                            lastUpdate = now,
                            connectionDetails = [(1, \<lparr> users = [''0xAb''], status = disconnected, messagesCount = 0 \<rparr>)] \<rparr>,
       userDataFiles = [], userLowestValueFiles = [], userExistingData = [(''0xAb'', [])],
       userExistingLowestData = [(''0xAb'', [])], userLowestAccountValues = [(''0xAb'', None)],
       userHighestAccountValues = [(''0xAb'', None)],
       userHistoricalDataFiles = [(''0xAb'', ''data/accountValueHistorical/20250110/0xab.json'')],
       userHistoricalLowestFiles = [(''0xAb'', ''data/accountValueHistorical/20250110/0xab-lowest.json'')],
       userExistingHistoricalData = [(''0xAb'', [])], userLowestTotalAccountValues = [(''0xAb'', None)],
       lastAllMidsUpdate = 0, allMidsUpdateInterval = 5000, totalMessagesReceived = 0,
       files = fs, unwritable = {}, nextSocket = 0, closedSockets = [], sentMessages = [],
       reconnectTimers = [] \<rparr>"

definition missingValueUpdate :: WebData2Data where
  "missingValueUpdate =
     \<lparr> user = ''0xab'', serverTime = 1673612345678, clearinghouseState = None, spotState = None \<rparr>"

text \<open>
  The connection table and its statistics have the same keys, each once, and a connection
  flagged connected has its attempt counter at zero. The states the client can reach, from
  construction through its event handlers and the changes of the file system around it,
  satisfy this.
\<close>

definition connInv :: "(nat \<times> ConnectionInfo) list \<Rightarrow> (nat \<times> ConnectionDetails) list \<Rightarrow> bool" where
  "connInv cs ds =
     (distinct (map fst cs) \<and> map fst ds = map fst cs
      \<and> list_all (\<lambda>c. isConnected (snd c) \<longrightarrow> reconnectAttempts (snd c) = 0) cs)"

definition lifecycleInv :: "Client \<Rightarrow> bool" where
  "lifecycleInv st = connInv (connections st) (connectionDetails (connectionStats st))"

inductive reachable :: "Client \<Rightarrow> bool" where
  constructed: "newClient addrs cm dm day now fs = Some st \<Longrightarrow> reachable st"
| healthCheckStarted: "reachable st \<Longrightarrow> reachable (startHealthCheck st)"
| connecting: "reachable st \<Longrightarrow> reachable (connectSingle connectionId st)"
| opened: "reachable st \<Longrightarrow> onOpen connectionId now st = Inr st' \<Longrightarrow> reachable st'"
| received: "reachable st \<Longrightarrow> reachable (handleMessage connectionId parsed now st)"
| closed: "reachable st \<Longrightarrow> onClose connectionId now st = Inr st' \<Longrightarrow> reachable st'"
| failed: "reachable st \<Longrightarrow> reachable (onError connectionId st)"
| checked: "reachable st \<Longrightarrow> performHealthCheck now st = Inr st' \<Longrightarrow> reachable st'"
| timerFired: "reachable st \<Longrightarrow> reachable (fireReconnectTimer i st)"
| shutDown: "reachable st \<Longrightarrow> reachable (disconnect now st)"
| diskChanged: "reachable st \<Longrightarrow> reachable (st \<lparr> unwritable := paths \<rparr>)"












section \<open>Partitioning: properties\<close>

lemma ceil_step:
  fixes K L i :: nat
  assumes "0 < K" "i < L"
  shows "(L - i + K - 1) div K = Suc ((L - (i + K) + K - 1) div K)"
proof -
  obtain M where M: "L - i = Suc M" using assms(2) by (cases "L - i") simp_all
  have e: "L - (i + K) = Suc M - K" using M by simp
  have "(M + K) div K = Suc (M div K)" using assms(1) by simp
  then have n: "(L - i + K - 1) div K = Suc (M div K)" by (simp add: M)
  show ?thesis
  proof (cases "M < K")
    case True
    then have "Suc M - K + K - 1 = K - 1" by simp
    then have "(L - (i + K) + K - 1) div K = 0" using assms(1) by (simp add: e)
    with n True show ?thesis by simp
  next
    case False
    then have "Suc M - K + K - 1 = M" by simp
    with n show ?thesis by (simp add: e)
  qed
qed

lemma groupUsers_closed:
  assumes "0 < K"
  shows "groupUsers K xs i acc =
     Some (acc @ map (\<lambda>j. take K (drop (i + j * K) xs)) [0..<(length xs - i + K - 1) div K])"
proof (induction "length xs - i" arbitrary: i acc rule: less_induct)
  case less
  show ?case
  proof (cases "i < length xs")
    case True
    define n' where "n' = (length xs - (i + K) + K - 1) div K"
    have n: "(length xs - i + K - 1) div K = Suc n'"
      unfolding n'_def by (rule ceil_step[OF assms True])
    have "length xs - (i + K) < length xs - i" using assms True by simp
    from less[OF this]
    have IH: "groupUsers K xs (i + K) (acc @ [take K (drop i xs)]) =
       Some ((acc @ [take K (drop i xs)]) @ map (\<lambda>j. take K (drop (i + K + j * K) xs)) [0..<n'])"
      unfolding n'_def .
    have m: "map (\<lambda>j. take K (drop (i + j * K) xs)) [0..<Suc n'] =
       take K (drop i xs) # map (\<lambda>j. take K (drop (i + K + j * K) xs)) [0..<n']"
      by (simp add: upt_conv_Cons map_Suc_upt[symmetric] add.assoc del: upt_Suc)
    have "groupUsers K xs i acc = groupUsers K xs (i + K) (acc @ [take K (drop i xs)])"
      by (subst groupUsers.simps) (simp add: True)
    also note IH
    finally show ?thesis unfolding n m by simp
  next
    case False
    then have "(length xs - i + K - 1) div K = 0" using assms by simp
    with False show ?thesis by (subst groupUsers.simps) simp
  qed
qed

lemma concat_chunks:
  "concat (map (\<lambda>j. take K (drop (j * K) xs)) [0..<n]) = take (n * K) xs"
proof (induction n)
  case 0 show ?case by simp
next
  case (Suc n)
  have "concat (map (\<lambda>j. take K (drop (j * K) xs)) [0..<Suc n]) =
        concat (map (\<lambda>j. take K (drop (j * K) xs)) [0..<n]) @ take K (drop (n * K) xs)"
    by simp
  also have "\<dots> = take (n * K) xs @ take K (drop (n * K) xs)" by (simp only: Suc)
  also have "\<dots> = take (n * K + K) xs" by (rule take_add[symmetric])
  also have "n * K + K = Suc n * K" by simp
  finally show ?case .
qed

lemma ceil_mult_ge: "0 < (K::nat) \<Longrightarrow> N \<le> ((N + K - 1) div K) * K"
proof -
  assume k: "0 < K"
  have "N + K - 1 = ((N + K - 1) div K) * K + (N + K - 1) mod K" by simp
  moreover have "(N + K - 1) mod K < K" using k by simp
  ultimately show ?thesis by linarith
qed


lemma update_fresh: "k \<notin> fst ` set al \<Longrightarrow> AList.update k v al = al @ [(k, v)]"
  by (induction al) auto

lemma connections_addConnection:
  "connections (addConnection now s (n, g)) =
     AList.update (Suc n) (freshConnection now g) (connections s)"
  by (simp add: addConnection_def freshConnection_def)

lemma foldl_addConnection_connections:
  assumes "connections st = []"
  shows "connections (foldl (addConnection now) st (zip [0..<length gs] gs)) =
     map (\<lambda>p. (Suc (fst p), freshConnection now (snd p))) (zip [0..<length gs] gs)"
proof (induction gs rule: rev_induct)
  case Nil
  show ?case using assms by simp
next
  case (snoc g gs)
  have z: "zip [0..<length (gs @ [g])] (gs @ [g]) = zip [0..<length gs] gs @ [(length gs, g)]"
    by simp
  have fresh: "Suc (length gs) \<notin> fst ` set (map (\<lambda>p. (Suc (fst p), freshConnection now (snd p)))
      (zip [0..<length gs] gs))"
    by (auto simp: in_set_zip)
  show ?case
    unfolding z foldl_append
    by (simp only: foldl.simps connections_addConnection snoc update_fresh[OF fresh] map_append list.map fst_conv snd_conv)
qed

lemma setupConnectionGroups_connections:
  assumes "0 < K" and "connections st = []"
  shows "\<exists>st'. setupConnectionGroups K addrs now st = Some st' \<and>
     connections st' = map (\<lambda>j. (Suc j, freshConnection now (take K (drop (j * K) addrs))))
        [0..<(length addrs + K - 1) div K] \<and>
     totalConnections (connectionStats st') = (length addrs + K - 1) div K"
proof -
  define gs where "gs = map (\<lambda>j. take K (drop (j * K) addrs)) [0..<(length addrs + K - 1) div K]"
  have g: "groupUsers K addrs 0 [] = Some gs"
    unfolding gs_def using groupUsers_closed[OF assms(1), of addrs 0 "[]"] by simp
  have l: "length gs = (length addrs + K - 1) div K" by (simp add: gs_def)
  have "zip [0..<length gs] gs = map (\<lambda>j. (j, take K (drop (j * K) addrs))) [0..<(length addrs + K - 1) div K]"
    unfolding l unfolding gs_def by (simp add: zip_map2 zip_same_conv_map)
  then show ?thesis
    using foldl_addConnection_connections[OF assms(2), of now gs] l
    by (simp add: setupConnectionGroups_def g Let_def o_def)
qed


lemma chunk_member_unique:
  assumes K: "0 < K" and d: "distinct addrs" and u: "u \<in> set addrs"
  shows "\<exists>!j. j < (length addrs + K - 1) div K \<and> u \<in> set (take K (drop (j * K) addrs))"
proof -
  from u obtain p where p: "p < length addrs" "addrs ! p = u"
    by (auto simp: in_set_conv_nth)
  have cover: "length addrs \<le> ((length addrs + K - 1) div K) * K"
    by (rule ceil_mult_ge[OF K])
  have pe: "p div K * K + p mod K = p" by simp
  have ex: "p div K < (length addrs + K - 1) div K \<and> u \<in> set (take K (drop (p div K * K) addrs))"
  proof
    from p(1) cover have "p < ((length addrs + K - 1) div K) * K" by simp
    then show "p div K < (length addrs + K - 1) div K"
      using K by (simp add: div_less_iff_less_mult)
    have l: "p mod K < length (take K (drop (p div K * K) addrs))"
      using K p(1) pe by (simp add: less_diff_conv add.commute)
    have le: "p div K * K \<le> length addrs" using p(1) pe by linarith
    have "drop (p div K * K) addrs ! (p mod K) = addrs ! (p div K * K + p mod K)"
      using le by (simp only: nth_drop)
    then have "take K (drop (p div K * K) addrs) ! (p mod K) = u"
      using l p(2) by (simp only: pe) simp
    with l show "u \<in> set (take K (drop (p div K * K) addrs))"
      by (auto simp: in_set_conv_nth)
  qed
  have uniq: "j = p div K" if "u \<in> set (take K (drop (j * K) addrs))" for j
  proof -
    from that obtain q where q: "q < length (take K (drop (j * K) addrs))"
      "take K (drop (j * K) addrs) ! q = u" by (auto simp: in_set_conv_nth)
    then have qK: "q < K" and qL: "j * K + q < length addrs" by (auto simp: less_diff_conv add.commute)
    from q qL have "addrs ! (j * K + q) = u" by simp
    with p(2) have "addrs ! (j * K + q) = addrs ! p" by simp
    with nth_eq_iff_index_eq[OF d qL p(1)] have "j * K + q = p" by simp
    then have "p div K = (q + j * K) div K" by (simp add: add.commute)
    also have "\<dots> = j" using qK by simp
    finally show ?thesis by simp
  qed
  show ?thesis
    by (rule ex1I[of _ "p div K"]) (use ex uniq in auto)
qed

text \<open>
  Claim C2. For every account list and every group size \<open>K > 0\<close>, starting from a client
  without connections, \<^verbatim>\<open>setupConnectionGroups\<close> returns; it creates \<open>\<lceil>N / K\<rceil>\<close>
  connections (written \<open>(N + K - 1) div K\<close>), each with at most \<open>K\<close> accounts; the
  connections' account lists, in order, concatenate to the input list; connection \<open>j + 1\<close>
  holds the accounts at positions \<open>j * K, \<dots>, j * K + K - 1\<close>; an account of a
  duplicate-free list is in exactly one connection; and the empty list gives no connection.
\<close>

theorem setupConnectionGroups_partition:
  assumes "0 < K" and "connections st = []"
  shows "\<exists>st'. setupConnectionGroups K addrs now st = Some st'
     \<and> length (connections st') = (length addrs + K - 1) div K
     \<and> totalConnections (connectionStats st') = (length addrs + K - 1) div K
     \<and> (\<forall>c \<in> set (connections st'). length (userAddresses (snd c)) \<le> K)
     \<and> concat (map (\<lambda>c. userAddresses (snd c)) (connections st')) = addrs
     \<and> (\<forall>j < length (connections st').
           fst (connections st' ! j) = j + 1
           \<and> userAddresses (snd (connections st' ! j)) = take K (drop (j * K) addrs))
     \<and> (distinct addrs \<longrightarrow>
           (\<forall>u \<in> set addrs. \<exists>!j. j < length (connections st')
              \<and> u \<in> set (userAddresses (snd (connections st' ! j)))))
     \<and> (addrs = [] \<longrightarrow> connections st' = [])"
proof -
  define n where "n = (length addrs + K - 1) div K"
  from setupConnectionGroups_connections[OF assms, of addrs now]
  obtain st' where s: "setupConnectionGroups K addrs now st = Some st'"
    and c: "connections st' = map (\<lambda>j. (Suc j, freshConnection now (take K (drop (j * K) addrs)))) [0..<n]"
    and t: "totalConnections (connectionStats st') = n"
    unfolding n_def by blast
  have ua: "userAddresses (freshConnection now g) = g" for g by (simp add: freshConnection_def)
  have len: "length (connections st') = n" by (simp add: c)
  have nth: "connections st' ! j = (Suc j, freshConnection now (take K (drop (j * K) addrs)))"
    if "j < n" for j using that by (simp add: c)
  have le: "\<forall>c \<in> set (connections st'). length (userAddresses (snd c)) \<le> K"
    by (auto simp: c ua)
  have "concat (map (\<lambda>c. userAddresses (snd c)) (connections st')) =
        concat (map (\<lambda>j. take K (drop (j * K) addrs)) [0..<n])"
    by (simp add: c ua o_def)
  also have "\<dots> = take (n * K) addrs" by (rule concat_chunks)
  also have "\<dots> = addrs" using ceil_mult_ge[OF assms(1), of "length addrs"] by (simp add: n_def)
  finally have cc: "concat (map (\<lambda>c. userAddresses (snd c)) (connections st')) = addrs" .
  have pos: "\<forall>j < length (connections st').
           fst (connections st' ! j) = j + 1
           \<and> userAddresses (snd (connections st' ! j)) = take K (drop (j * K) addrs)"
    by (simp add: len nth ua)
  have un: "distinct addrs \<longrightarrow>
           (\<forall>u \<in> set addrs. \<exists>!j. j < length (connections st')
              \<and> u \<in> set (userAddresses (snd (connections st' ! j))))"
  proof (intro impI ballI)
    fix u assume d: "distinct addrs" and u: "u \<in> set addrs"
    from chunk_member_unique[OF assms(1) d u]
    obtain j where j: "j < n" "u \<in> set (take K (drop (j * K) addrs))"
      and jj: "\<And>i. i < n \<Longrightarrow> u \<in> set (take K (drop (i * K) addrs)) \<Longrightarrow> i = j"
      unfolding n_def by blast
    show "\<exists>!j. j < length (connections st') \<and> u \<in> set (userAddresses (snd (connections st' ! j)))"
    proof (rule ex1I[of _ j])
      show "j < length (connections st') \<and> u \<in> set (userAddresses (snd (connections st' ! j)))"
        using j by (simp add: len nth ua)
    next
      fix i assume "i < length (connections st') \<and> u \<in> set (userAddresses (snd (connections st' ! i)))"
      then have "i < n" and "u \<in> set (userAddresses (snd (connections st' ! i)))"
        by (simp_all add: len)
      then show "i = j" using jj[of i] by (simp add: nth ua)
    qed
  qed
  have em: "addrs = [] \<longrightarrow> connections st' = []" using assms(1) by (simp add: c n_def)
  from s len t le cc pos un em show ?thesis unfolding n_def by blast
qed

theorem setupConnectionGroups_partition_witness:
  "(0::nat) < 3 \<and> connections (emptyClient [] continuous historical ''20250110'' 0 Map.empty) = []
   \<and> distinct [''a'', ''b'', ''c'', ''d'']
   \<and> map (\<lambda>c. userAddresses (snd c))
        (connections (the (setupConnectionGroups 3 [''a'', ''b'', ''c'', ''d''] 0
           (emptyClient [] continuous historical ''20250110'' 0 Map.empty))))
      = [[''a'', ''b'', ''c''], [''d'']]"
proof -
  have k: "(0::nat) < 3" by simp
  have e: "connections (emptyClient [] continuous historical ''20250110'' 0 Map.empty) = []"
    by (simp add: emptyClient_def)
  have d: "distinct [''a'', ''b'', ''c'', ''d'']" by simp
  from setupConnectionGroups_partition[OF k e, of "[''a'', ''b'', ''c'', ''d'']" 0]
  obtain st' where s: "setupConnectionGroups 3 [''a'', ''b'', ''c'', ''d''] 0
           (emptyClient [] continuous historical ''20250110'' 0 Map.empty) = Some st'"
    and l: "length (connections st') = 2"
    and p: "\<forall>j < length (connections st').
           userAddresses (snd (connections st' ! j)) = take 3 (drop (j * 3) [''a'', ''b'', ''c'', ''d''])"
    by auto
  have "map (\<lambda>c. userAddresses (snd c)) (connections st') = [[''a'', ''b'', ''c''], [''d'']]"
    using l p by (auto simp: list_eq_iff_nth_eq less_Suc_eq numeral_2_eq_2)
  with k e d s show ?thesis by simp
qed

section \<open>Valuation: properties\<close>

lemmas parseFloat_defs = parseFloat_def parseUnsigned_def isSpace_def isDigit_def digitsVal_def
  scale10_def parseExponent_def

lemma parseFloat_1000: "parseFloat ''1000.00'' = Fin 1000" by (simp add: parseFloat_defs)
lemma parseFloat_50: "parseFloat ''50'' = Fin 50" by (simp add: parseFloat_defs)
lemma parseFloat_2: "parseFloat ''2'' = Fin 2" by (simp add: parseFloat_defs)
lemma parseFloat_190: "parseFloat ''190'' = Fin 190" by (simp add: parseFloat_defs)
lemma parseFloat_100: "parseFloat ''100'' = Fin 100" by (simp add: parseFloat_defs)
lemma parseFloat_0: "parseFloat ''0'' = Fin 0" by (simp add: parseFloat_defs)

lemmas parseFloat_examples = parseFloat_1000 parseFloat_50 parseFloat_2 parseFloat_190 parseFloat_100 parseFloat_0


lemma live_calc:
  assumes "map_of lp ''SOL'' = Some ''100''" and "map_of al ''USOL'' = Some ''SOL''"
  shows "calculateTotalAccountValueWithCurrentPrices lp al ''1000.00'' exampleBalances
     = (Fin 1250, [(''USDC'', ''1.00''), (''USOL'', ''100'')])"
  using assms
  by (simp add: calculateTotalAccountValueWithCurrentPrices_def exampleBalances_def
      addCurrentPrice_def orDefault_def parseFloat_examples getSpotTokenPrice_def getTokenPrice_def)


lemma fallback_calc:
  "calculateTotalAccountValue ''1000.00'' exampleBalances = Fin 1240"
  by (simp add: calculateTotalAccountValue_def exampleBalances_def addEntryNtl_def orDefault_def
      parseFloatField_def parseFloat_examples)

lemma fallback_record:
  "foldl recordEntryNtl [] exampleBalances = [(''USDC'', ''1.00''), (''USOL'', ''entryNtl:190'')]"
  by (simp add: exampleBalances_def recordEntryNtl_def orDefault_def jgt_def parseFloat_examples)

lemma live_calc_missing:
  assumes "getSpotTokenPrice lp al ''USOL'' = None"
  shows "calculateTotalAccountValueWithCurrentPrices lp al ''1000.00'' exampleBalances
     = (Fin 1240, [(''USDC'', ''1.00''), (''USOL'', ''entryNtl:190'')])"
  using assms
  by (simp add: calculateTotalAccountValueWithCurrentPrices_def exampleBalances_def
      addCurrentPrice_def orDefault_def parseFloat_examples)

lemma example_fields:
  "marginAccountValue (exampleUpdate u t) = Some ''1000.00''"
  "spotState (exampleUpdate u t) = Some \<lparr> balances = exampleBalances \<rparr>"
  "serverTime (exampleUpdate u t) = t"
  by (simp_all add: exampleUpdate_def marginAccountValue_def)

lemma priceSource_entry:
  "createHistoricalDataEntry lp al d = Inr e \<Longrightarrow>
     priceSource e = (if lp = [] then entryNtlSource else currentPrices)"
  by (auto simp: createHistoricalDataEntry_def Let_def SUBSCRIPTION_TYPES_def split: if_splits)

text \<open>
  Claim C4. With a price cache that holds \<^verbatim>\<open>SOL\<close> at \<^verbatim>\<open>"100"\<close> and an alias table that
  maps \<^verbatim>\<open>USOL\<close> to \<^verbatim>\<open>SOL\<close>, the snapshot of the example update has total account value
  1250 (1000 + 50 + 2 * 100), records the prices \<^verbatim>\<open>USDC: "1.00"\<close> and \<^verbatim>\<open>USOL: "100"\<close>, and
  its price source is \<^verbatim>\<open>currentPrices\<close> (live). The spot price lookup gives \<^verbatim>\<open>"1.0"\<close> for
  \<^verbatim>\<open>USDC\<close> whatever the tables hold, else the price of the alias when the coin has one,
  else the price of the coin itself.
\<close>

theorem live_valuation_example:
  assumes "map_of lp ''SOL'' = Some ''100''" and "map_of al ''USOL'' = Some ''SOL''"
    and "validTime t"
  shows "createHistoricalDataEntry lp al (exampleUpdate u t) =
           Inr \<lparr> totalAccountValue = Fin 1250, clearinghouseValue = ''1000.00'',
                 spotBalance = exampleBalances,
                 pricesUsed = [(''USDC'', ''1.00''), (''USOL'', ''100'')],
                 entryServerTime = t, priceSource = currentPrices \<rparr>
         \<and> getSpotTokenPrice lp al ''USOL'' = Some ''100''
         \<and> getSpotTokenPrice lp' al' ''USDC'' = Some ''1.0''
         \<and> (c \<noteq> ''USDC'' \<longrightarrow> map_of al' c = Some k \<longrightarrow> k \<noteq> [] \<longrightarrow>
               getSpotTokenPrice lp' al' c = getTokenPrice lp' k)
         \<and> (c \<noteq> ''USDC'' \<longrightarrow> map_of al' c = None \<longrightarrow>
               getSpotTokenPrice lp' al' c = getTokenPrice lp' c)"
proof -
  from assms(1) have ne: "lp \<noteq> []" by auto
  have "createHistoricalDataEntry lp al (exampleUpdate u t) =
           Inr \<lparr> totalAccountValue = Fin 1250, clearinghouseValue = ''1000.00'',
                 spotBalance = exampleBalances,
                 pricesUsed = [(''USDC'', ''1.00''), (''USOL'', ''100'')],
                 entryServerTime = t, priceSource = currentPrices \<rparr>"
    using ne assms(3)
    by (simp add: createHistoricalDataEntry_def example_fields orDefault_def
        live_calc[OF assms(1,2)] SUBSCRIPTION_TYPES_def)
  moreover have "getSpotTokenPrice lp al ''USOL'' = Some ''100''"
    using assms(1,2) by (simp add: getSpotTokenPrice_def getTokenPrice_def)
  moreover have "getSpotTokenPrice lp' al' ''USDC'' = Some ''1.0''"
    by (simp add: getSpotTokenPrice_def)
  moreover have "c \<noteq> ''USDC'' \<longrightarrow> map_of al' c = Some k \<longrightarrow> k \<noteq> [] \<longrightarrow>
               getSpotTokenPrice lp' al' c = getTokenPrice lp' k"
    by (simp add: getSpotTokenPrice_def)
  moreover have "c \<noteq> ''USDC'' \<longrightarrow> map_of al' c = None \<longrightarrow>
               getSpotTokenPrice lp' al' c = getTokenPrice lp' c"
    by (simp add: getSpotTokenPrice_def)
  ultimately show ?thesis by blast
qed

theorem live_valuation_example_witness:
  "map_of [(''SOL'', ''100'')] ''SOL'' = Some ''100''
   \<and> map_of [(''USOL'', ''SOL''), (''USDC'', ''USDC'')] ''USOL'' = Some ''SOL''
   \<and> validTime 1673612345678
   \<and> ''BTC'' \<noteq> ''USDC''
   \<and> map_of [(''USOL'', ''SOL''), (''USDC'', ''USDC'')] ''BTC'' = None
   \<and> createHistoricalDataEntry [(''SOL'', ''100'')] [(''USOL'', ''SOL''), (''USDC'', ''USDC'')]
        (exampleUpdate ''0xab'' 1673612345678) =
           Inr \<lparr> totalAccountValue = Fin 1250, clearinghouseValue = ''1000.00'',
                 spotBalance = exampleBalances,
                 pricesUsed = [(''USDC'', ''1.00''), (''USOL'', ''100'')],
                 entryServerTime = 1673612345678, priceSource = currentPrices \<rparr>
   \<and> getSpotTokenPrice [(''SOL'', ''100'')] [(''USOL'', ''SOL''), (''USDC'', ''USDC'')] ''USOL''
        = getTokenPrice [(''SOL'', ''100'')] ''SOL''
   \<and> getSpotTokenPrice [(''SOL'', ''100'')] [(''USOL'', ''SOL''), (''USDC'', ''USDC'')] ''BTC''
        = getTokenPrice [(''SOL'', ''100'')] ''BTC''"
proof -
  have a: "map_of [(''SOL'', ''100'')] ''SOL'' = Some ''100''" by simp
  have b: "map_of [(''USOL'', ''SOL''), (''USDC'', ''USDC'')] ''USOL'' = Some ''SOL''" by simp
  have c: "validTime 1673612345678" by (simp add: validTime_def)
  have d: "''BTC'' \<noteq> ''USDC''" by simp
  have e: "map_of [(''USOL'', ''SOL''), (''USDC'', ''USDC'')] ''BTC'' = None" by simp
  have f: "''USOL'' \<noteq> ''USDC''" "''SOL'' \<noteq> []" by simp_all
  note t1 = live_valuation_example[OF a b c, of "''0xab''" "[(''SOL'', ''100'')]"
      "[(''USOL'', ''SOL''), (''USDC'', ''USDC'')]" "''BTC''" "''SOL''"]
  note t2 = live_valuation_example[OF a b c, of "''0xab''" "[(''SOL'', ''100'')]"
      "[(''USOL'', ''SOL''), (''USDC'', ''USDC'')]" "''USOL''" "''SOL''"]
  from t1 d e have g: "getSpotTokenPrice [(''SOL'', ''100'')] [(''USOL'', ''SOL''), (''USDC'', ''USDC'')] ''BTC''
        = getTokenPrice [(''SOL'', ''100'')] ''BTC''" by blast
  from t2 f b have h: "getSpotTokenPrice [(''SOL'', ''100'')] [(''USOL'', ''SOL''), (''USDC'', ''USDC'')] ''USOL''
        = getTokenPrice [(''SOL'', ''100'')] ''SOL''" by blast
  from t1 a b c d e g h show ?thesis by blast
qed


text \<open>
  Claim C3 as stated fails: with a price cache that holds only \<^verbatim>\<open>BTC\<close>, there is no live
  price for \<^verbatim>\<open>USOL\<close> and it is valued by its entry notional, yet the price source of the
  snapshot is \<^verbatim>\<open>currentPrices\<close>, not the fallback marker.
\<close>

theorem priceSource_counterexample:
  "getSpotTokenPrice [(''BTC'', ''50000'')] [] ''USOL'' = None
   \<and> createHistoricalDataEntry [(''BTC'', ''50000'')] [] (exampleUpdate ''0xab'' 0) =
        Inr \<lparr> totalAccountValue = Fin 1240, clearinghouseValue = ''1000.00'',
              spotBalance = exampleBalances,
              pricesUsed = [(''USDC'', ''1.00''), (''USOL'', ''entryNtl:190'')],
              entryServerTime = 0, priceSource = currentPrices \<rparr>
   \<and> currentPrices \<noteq> entryNtlSource"
proof -
  have n: "getSpotTokenPrice [(''BTC'', ''50000'')] [] ''USOL'' = None"
    by (simp add: getSpotTokenPrice_def getTokenPrice_def)
  have "createHistoricalDataEntry [(''BTC'', ''50000'')] [] (exampleUpdate ''0xab'' 0) =
        Inr \<lparr> totalAccountValue = Fin 1240, clearinghouseValue = ''1000.00'',
              spotBalance = exampleBalances,
              pricesUsed = [(''USDC'', ''1.00''), (''USOL'', ''entryNtl:190'')],
              entryServerTime = 0, priceSource = currentPrices \<rparr>"
    by (simp add: createHistoricalDataEntry_def example_fields orDefault_def
        live_calc_missing[OF n] SUBSCRIPTION_TYPES_def validTime_def)
  with n show ?thesis by simp
qed

text \<open>
  Claim C3, amended. Whenever the lookup finds no live price for \<^verbatim>\<open>USOL\<close>, the snapshot of
  the example update has total account value 1240 (1000 + 50 + 190) and records
  \<^verbatim>\<open>USOL: "entryNtl:190"\<close>. The price source of a snapshot is \<^verbatim>\<open>entryNtl\<close> (fallback) exactly
  when the price cache is empty, and \<^verbatim>\<open>currentPrices\<close> (live) whenever the cache holds any
  price, whether or not each asset had a live price.
\<close>

theorem fallback_valuation_example:
  assumes "getSpotTokenPrice lp al ''USOL'' = None" and "validTime t"
  shows "createHistoricalDataEntry lp al (exampleUpdate u t) =
           Inr \<lparr> totalAccountValue = Fin 1240, clearinghouseValue = ''1000.00'',
                 spotBalance = exampleBalances,
                 pricesUsed = [(''USDC'', ''1.00''), (''USOL'', ''entryNtl:190'')],
                 entryServerTime = t,
                 priceSource = (if lp = [] then entryNtlSource else currentPrices) \<rparr>
         \<and> (\<forall>d e. createHistoricalDataEntry lp al d = Inr e \<longrightarrow>
               priceSource e = (if lp = [] then entryNtlSource else currentPrices))"
proof -
  have "createHistoricalDataEntry lp al (exampleUpdate u t) =
           Inr \<lparr> totalAccountValue = Fin 1240, clearinghouseValue = ''1000.00'',
                 spotBalance = exampleBalances,
                 pricesUsed = [(''USDC'', ''1.00''), (''USOL'', ''entryNtl:190'')],
                 entryServerTime = t,
                 priceSource = (if lp = [] then entryNtlSource else currentPrices) \<rparr>"
    using assms(2)
    by (simp add: createHistoricalDataEntry_def example_fields orDefault_def
        live_calc_missing[OF assms(1)] fallback_calc fallback_record SUBSCRIPTION_TYPES_def)
  then show ?thesis using priceSource_entry by blast
qed

theorem fallback_valuation_example_witness:
  "getSpotTokenPrice [] [(''USOL'', ''SOL''), (''USDC'', ''USDC'')] ''USOL'' = None
   \<and> validTime 1673612345678
   \<and> createHistoricalDataEntry [] [(''USOL'', ''SOL''), (''USDC'', ''USDC'')]
        (exampleUpdate ''0xab'' 1673612345678) =
           Inr \<lparr> totalAccountValue = Fin 1240, clearinghouseValue = ''1000.00'',
                 spotBalance = exampleBalances,
                 pricesUsed = [(''USDC'', ''1.00''), (''USOL'', ''entryNtl:190'')],
                 entryServerTime = 1673612345678, priceSource = entryNtlSource \<rparr>"
proof -
  have a: "getSpotTokenPrice [] [(''USOL'', ''SOL''), (''USDC'', ''USDC'')] ''USOL'' = None"
    by (simp add: getSpotTokenPrice_def getTokenPrice_def)
  have b: "validTime 1673612345678" by (simp add: validTime_def)
  from fallback_valuation_example[OF a b, of "''0xab''"] a b show ?thesis by simp
qed

lemma addCurrentPrice_skip:
  "jle (parseFloat (orDefault (total b) ''0'')) (Fin 0) \<Longrightarrow> addCurrentPrice lp al acc b = acc"
  by (simp add: addCurrentPrice_def Let_def)

lemma live_path_skips:
  assumes "jle (parseFloat (orDefault (total b) ''0'')) (Fin 0)"
  shows "calculateTotalAccountValueWithCurrentPrices lp al cv (bs1 @ b # bs2) =
         calculateTotalAccountValueWithCurrentPrices lp al cv (bs1 @ bs2)"
  by (simp add: calculateTotalAccountValueWithCurrentPrices_def addCurrentPrice_skip[OF assms])

text \<open>
  Claim C6 on the code. With an empty price cache (the entry-notional path), a balance of
  quantity \<^verbatim>\<open>"0"\<close> with entry notional \<^verbatim>\<open>"190"\<close> adds 190 to the total (1190) although no
  price is recorded for it; with a non-empty cache (the live path) the same balance is
  skipped (total 1000).
\<close>

theorem fallback_path_counts_zero_quantity:
  "createHistoricalDataEntry [] [] zeroQuantityUpdate =
     Inr \<lparr> totalAccountValue = Fin 1190, clearinghouseValue = ''1000.00'',
           spotBalance = [\<lparr> coin = ''USOL'', total = Some ''0'', entryNtl = Some ''190'' \<rparr>],
           pricesUsed = [], entryServerTime = 0, priceSource = entryNtlSource \<rparr>
   \<and> createHistoricalDataEntry [(''BTC'', ''50000'')] [] zeroQuantityUpdate =
     Inr \<lparr> totalAccountValue = Fin 1000, clearinghouseValue = ''1000.00'',
           spotBalance = [\<lparr> coin = ''USOL'', total = Some ''0'', entryNtl = Some ''190'' \<rparr>],
           pricesUsed = [], entryServerTime = 0, priceSource = currentPrices \<rparr>"
  by (simp add: createHistoricalDataEntry_def zeroQuantityUpdate_def marginAccountValue_def
      orDefault_def calculateTotalAccountValue_def addEntryNtl_def recordEntryNtl_def jgt_def
      calculateTotalAccountValueWithCurrentPrices_def addCurrentPrice_def
      parseFloat_examples validTime_def SUBSCRIPTION_TYPES_def)

section \<open>Connection lifecycle: properties\<close>

lemma map_of_update_same: "map_of (AList.update k v al) k = Some v"
  by (simp add: AList.update_conv')

lemma map_of_update_other: "k' \<noteq> k \<Longrightarrow> map_of (AList.update k v al) k' = map_of al k'"
  by (simp add: AList.update_conv')

lemma keys_update_present:
  "map_of al k = Some w \<Longrightarrow> map fst (AList.update k v al) = map fst al"
  by (induction al) (auto split: if_splits)

lemma setStatus_present:
  assumes "map_of (connectionDetails (connectionStats st)) cid = Some det"
  shows "setStatus cid s st =
     Inr (st \<lparr> connectionStats := (connectionStats st)
               \<lparr> connectionDetails :=
                   AList.update cid (det \<lparr> status := s \<rparr>) (connectionDetails (connectionStats st)) \<rparr> \<rparr>)"
  using assms by (simp add: setStatus_def)

lemma handleReconnect_schedules:
  assumes "map_of (connections st) cid = Some ci"
    and "map_of (connectionDetails (connectionStats st)) cid = Some det"
    and "reconnectAttempts ci < MAX_RECONNECT_ATTEMPTS"
  shows "handleReconnect cid st =
     Inr (st \<lparr> connections :=
                 AList.update cid (ci \<lparr> reconnectAttempts := reconnectAttempts ci + 1 \<rparr>) (connections st),
               connectionStats := (connectionStats st)
                 \<lparr> connectionDetails :=
                     AList.update cid (det \<lparr> status := reconnecting \<rparr>)
                       (connectionDetails (connectionStats st)) \<rparr>,
               reconnectTimers :=
                 reconnectTimers st @ [(RECONNECT_DELAY_MS * 2 ^ reconnectAttempts ci, cid)] \<rparr>)"
  using assms by (simp add: handleReconnect_def setStatus_def Let_def)

lemma handleReconnect_exhausted:
  assumes "map_of (connections st) cid = Some ci"
    and "map_of (connectionDetails (connectionStats st)) cid = Some det"
    and "\<not> reconnectAttempts ci < MAX_RECONNECT_ATTEMPTS"
  shows "handleReconnect cid st =
     Inr (st \<lparr> connectionStats := (connectionStats st)
                 \<lparr> connectionDetails :=
                     AList.update cid (det \<lparr> status := disconnected \<rparr>)
                       (connectionDetails (connectionStats st)) \<rparr> \<rparr>)"
  using assms by (simp add: handleReconnect_def setStatus_def)

lemma onClose_continuous:
  assumes "map_of (connections st) cid = Some ci"
    and "map_of (connectionDetails (connectionStats st)) cid = Some det"
    and "clientMode st = continuous"
  shows "\<exists>st' det'. onClose cid now st = Inr st' \<and> clientMode st' = continuous
     \<and> map_of (connectionDetails (connectionStats st')) cid = Some det'
     \<and> status det' = (if reconnectAttempts ci < MAX_RECONNECT_ATTEMPTS then reconnecting else disconnected)
     \<and> map_of (connections st') cid =
         Some (ci \<lparr> isConnected := False,
                    reconnectAttempts := (if reconnectAttempts ci < MAX_RECONNECT_ATTEMPTS
                                          then reconnectAttempts ci + 1 else reconnectAttempts ci) \<rparr>)
     \<and> reconnectTimers st' = reconnectTimers st @
         (if reconnectAttempts ci < MAX_RECONNECT_ATTEMPTS
          then [(RECONNECT_DELAY_MS * 2 ^ reconnectAttempts ci, cid)] else [])"
  using assms
  by (simp add: onClose_def updateConnectionStats_def setStatus_def handleReconnect_def Let_def
      map_of_update_same)

lemma closeEvents_timers:
  assumes "map_of (connections st) cid = Some ci"
    and "map_of (connectionDetails (connectionStats st)) cid = Some det"
    and "clientMode st = continuous"
    and "reconnectAttempts ci \<le> MAX_RECONNECT_ATTEMPTS"
  shows "\<exists>st' ci'. closeEvents cid ts st = Inr st'
     \<and> map_of (connections st') cid = Some ci'
     \<and> (ts \<noteq> [] \<longrightarrow> \<not> isConnected ci')
     \<and> reconnectAttempts ci' = min (reconnectAttempts ci + length ts) MAX_RECONNECT_ATTEMPTS
     \<and> reconnectTimers st' = reconnectTimers st @
          map (\<lambda>i. (RECONNECT_DELAY_MS * 2 ^ i, cid))
            [reconnectAttempts ci ..< min (reconnectAttempts ci + length ts) MAX_RECONNECT_ATTEMPTS]
     \<and> (reconnectAttempts ci + length ts > MAX_RECONNECT_ATTEMPTS \<longrightarrow>
          map_option status (map_of (connectionDetails (connectionStats st')) cid) = Some disconnected)"
  using assms
proof (induction ts arbitrary: st ci det)
  case Nil
  then show ?case by simp
next
  case (Cons now ts)
  from onClose_continuous[OF Cons.prems(1,2,3), of now]
  obtain st1 det1 where
    o: "onClose cid now st = Inr st1" and m: "clientMode st1 = continuous"
    and d: "map_of (connectionDetails (connectionStats st1)) cid = Some det1"
    and s: "status det1 = (if reconnectAttempts ci < MAX_RECONNECT_ATTEMPTS then reconnecting else disconnected)"
    and c: "map_of (connections st1) cid =
         Some (ci \<lparr> isConnected := False,
                    reconnectAttempts := (if reconnectAttempts ci < MAX_RECONNECT_ATTEMPTS
                                          then reconnectAttempts ci + 1 else reconnectAttempts ci) \<rparr>)"
    and t: "reconnectTimers st1 = reconnectTimers st @
         (if reconnectAttempts ci < MAX_RECONNECT_ATTEMPTS
          then [(RECONNECT_DELAY_MS * 2 ^ reconnectAttempts ci, cid)] else [])"
    by blast
  define ci1 where "ci1 = ci \<lparr> isConnected := False,
                    reconnectAttempts := (if reconnectAttempts ci < MAX_RECONNECT_ATTEMPTS
                                          then reconnectAttempts ci + 1 else reconnectAttempts ci) \<rparr>"
  have le: "reconnectAttempts ci1 \<le> MAX_RECONNECT_ATTEMPTS"
    using Cons.prems(4) by (simp add: ci1_def)
  from Cons.IH[OF c[folded ci1_def] d m le]
  obtain st' ci' where
    r: "closeEvents cid ts st1 = Inr st'" and c': "map_of (connections st') cid = Some ci'"
    and n: "ts \<noteq> [] \<longrightarrow> \<not> isConnected ci'"
    and a: "reconnectAttempts ci' = min (reconnectAttempts ci1 + length ts) MAX_RECONNECT_ATTEMPTS"
    and t': "reconnectTimers st' = reconnectTimers st1 @
          map (\<lambda>i. (RECONNECT_DELAY_MS * 2 ^ i, cid))
            [reconnectAttempts ci1 ..< min (reconnectAttempts ci1 + length ts) MAX_RECONNECT_ATTEMPTS]"
    and f: "reconnectAttempts ci1 + length ts > MAX_RECONNECT_ATTEMPTS \<longrightarrow>
          map_option status (map_of (connectionDetails (connectionStats st')) cid) = Some disconnected"
    by blast
  have nc: "\<not> isConnected ci'"
  proof (cases ts)
    case Nil
    with r c' c show ?thesis by simp
  next
    case (Cons x xs)
    with n show ?thesis by simp
  qed
  show ?case
  proof (cases "reconnectAttempts ci < MAX_RECONNECT_ATTEMPTS")
    case True
    then have a1: "reconnectAttempts ci1 = Suc (reconnectAttempts ci)" by (simp add: ci1_def)
    have u: "[reconnectAttempts ci ..< min (Suc (reconnectAttempts ci + length ts)) MAX_RECONNECT_ATTEMPTS]
        = reconnectAttempts ci # [Suc (reconnectAttempts ci) ..< min (Suc (reconnectAttempts ci + length ts)) MAX_RECONNECT_ATTEMPTS]"
      using True by (simp add: upt_conv_Cons)
    have fin: "reconnectAttempts ci + length (now # ts) > MAX_RECONNECT_ATTEMPTS \<longrightarrow>
          map_option status (map_of (connectionDetails (connectionStats st')) cid) = Some disconnected"
      using f a1 by simp
    show ?thesis
      using r c' nc a t' fin True u by (simp add: o t a1)
  next
    case False
    with Cons.prems(4) have e: "reconnectAttempts ci = MAX_RECONNECT_ATTEMPTS" by simp
    then have a1: "reconnectAttempts ci1 = MAX_RECONNECT_ATTEMPTS" by (simp add: ci1_def)
    have fin: "map_option status (map_of (connectionDetails (connectionStats st')) cid) = Some disconnected"
    proof (cases ts)
      case Nil
      with r d s False show ?thesis by simp
    next
      case (Cons x xs)
      with f a1 show ?thesis by simp
    qed
    show ?thesis
      using r c' nc a t' fin by (simp add: o t a1 e)
  qed
qed

lemma groupUsers_single: "groupUsers 3 [u] 0 [] = Some [[u]]"
  by (simp add: groupUsers.simps)

lemma toLowerCase_example: "toLowerCase ''0xAb'' = ''0xab''"
  by (simp add: toLowerCase_def toLowerChar_def)

lemma startedClient_historical:
  "startedClient cm historical =
     \<lparr> latestPrices = [], tokenToAllMidsMapping = [],
       connections = [(1, \<lparr> ws = Some 0, userAddresses = [''0xAb''], isConnected = False,
                             reconnectAttempts = 0, lastHeartbeat = 0,
                             subscriptionTypes = [webData2, allMids] \<rparr>)],
       userToConnectionMap = [(''0xAb'', 1)],
       today = ''20250110'', clientMode = cm, dataSaveMode = historical, healthCheckInterval = True,
       connectionStats = \<lparr> totalConnections = 1, activeConnections = 0,
                            totalUsers = 1, messagesReceived = 0,
                            lastUpdate = 0,
                            connectionDetails = [(1, \<lparr> users = [''0xAb''], status = disconnected, messagesCount = 0 \<rparr>)] \<rparr>,
       userDataFiles = [], userLowestValueFiles = [], userExistingData = [(''0xAb'', [])],
       userExistingLowestData = [(''0xAb'', [])], userLowestAccountValues = [(''0xAb'', None)],
       userHighestAccountValues = [(''0xAb'', None)],
       userHistoricalDataFiles = [(''0xAb'', ''data/accountValueHistorical/20250110/0xab.json'')],
       userHistoricalLowestFiles = [(''0xAb'', ''data/accountValueHistorical/20250110/0xab-lowest.json'')],
       userExistingHistoricalData = [(''0xAb'', [])], userLowestTotalAccountValues = [(''0xAb'', None)],
       lastAllMidsUpdate = 0, allMidsUpdateInterval = 5000, totalMessagesReceived = 0,
       files = Map.empty, unwritable = {}, nextSocket = 1, closedSockets = [], sentMessages = [],
       reconnectTimers = [] \<rparr>"
  by (simp add: startedClient_def newClient_def emptyClient_def initializeTokenMapping_def
      initializeUserData_def initializeUser_def setupConnectionGroups_def groupUsers_single
      MAX_USERS_PER_CONNECTION_def addConnection_def SUBSCRIPTION_TYPES_def
      loadExistingData_def loadUser_def readPath_def connectSingle_def startHealthCheck_def
      historicalDataPath_def historicalLowestPath_def toLowerCase_example Let_def)

lemma connectedClient_historical:
  "connectedClient cm historical =
     (startedClient cm historical)
       \<lparr> connections := [(1, \<lparr> ws = Some 0, userAddresses = [''0xAb''], isConnected = True,
                             reconnectAttempts = 0, lastHeartbeat = 1000,
                             subscriptionTypes = [webData2, allMids] \<rparr>)],
         connectionStats := \<lparr> totalConnections = 1, activeConnections = 1,
                            totalUsers = 1, messagesReceived = 0,
                            lastUpdate = 1000,
                            connectionDetails = [(1, \<lparr> users = [''0xAb''], status = connected, messagesCount = 0 \<rparr>)] \<rparr>,
         sentMessages := [(0, SubscribeWebData2 ''0xAb''), (0, SubscribeAllMids)] \<rparr>"
  by (simp add: connectedClient_def startedClient_historical onOpen_def updateConnectionStats_def
      setStatus_def setupSubscriptions_def Let_def)

lemma connectedClient_fields:
  "map_of (connections (connectedClient cm historical)) 1 =
     Some \<lparr> ws = Some 0, userAddresses = [''0xAb''], isConnected = True,
            reconnectAttempts = 0, lastHeartbeat = 1000,
            subscriptionTypes = [webData2, allMids] \<rparr>"
  "map_of (connectionDetails (connectionStats (connectedClient cm historical))) 1 =
     Some \<lparr> users = [''0xAb''], status = connected, messagesCount = 0 \<rparr>"
  "connections (connectedClient cm historical) =
     [(1, \<lparr> ws = Some 0, userAddresses = [''0xAb''], isConnected = True,
            reconnectAttempts = 0, lastHeartbeat = 1000,
            subscriptionTypes = [webData2, allMids] \<rparr>)]"
  "clientMode (connectedClient cm historical) = cm"
  "reconnectTimers (connectedClient cm historical) = []"
  "totalMessagesReceived (connectedClient cm historical) = 0"
  "healthCheckInterval (connectedClient cm historical) = True"
  by (simp_all add: connectedClient_historical startedClient_historical)

lemma onOpen_resets:
  assumes "map_of (connections st) cid = Some ci"
    and "map_of (connectionDetails (connectionStats st)) cid = Some det"
  shows "\<exists>st'. onOpen cid now st = Inr st'
     \<and> map_of (connections st') cid =
         Some (ci \<lparr> isConnected := True, reconnectAttempts := 0, lastHeartbeat := now \<rparr>)"
  using assms
  by (simp add: onOpen_def updateConnectionStats_def setStatus_def setupSubscriptions_def Let_def
      map_of_update_same split: option.split)

text \<open>
  Claim C7. For a connection of the client: while its attempt counter is below the maximum
  of 5, \<^verbatim>\<open>handleReconnect\<close> increments the counter and schedules a reconnect after
  \<open>5000 * 2 ^ (attempt - 1)\<close> ms; at the maximum it schedules nothing, leaves the
  connection as it is and reports it disconnected. Six consecutive close events on a
  connection of a continuous-mode client whose counter was 0 schedule exactly five
  reconnects, after 5000, 10000, 20000, 40000 and 80000 ms, and leave the connection
  disconnected. The open handler marks the connection connected and resets the counter
  to 0.
\<close>

theorem reconnect_backoff:
  assumes "map_of (connections st) cid = Some ci"
    and "map_of (connectionDetails (connectionStats st)) cid = Some det"
  shows "(reconnectAttempts ci < MAX_RECONNECT_ATTEMPTS \<longrightarrow>
           (\<exists>st'. handleReconnect cid st = Inr st'
              \<and> map_of (connections st') cid =
                  Some (ci \<lparr> reconnectAttempts := reconnectAttempts ci + 1 \<rparr>)
              \<and> reconnectTimers st' =
                  reconnectTimers st @ [(5000 * 2 ^ (reconnectAttempts ci + 1 - 1), cid)]))
       \<and> (MAX_RECONNECT_ATTEMPTS \<le> reconnectAttempts ci \<longrightarrow>
           (\<exists>st'. handleReconnect cid st = Inr st'
              \<and> connections st' = connections st
              \<and> reconnectTimers st' = reconnectTimers st
              \<and> map_option status (map_of (connectionDetails (connectionStats st')) cid)
                  = Some disconnected))
       \<and> (clientMode st = continuous \<and> reconnectAttempts ci = 0 \<and> reconnectTimers st = [] \<longrightarrow>
           (\<exists>st' ci'. closeEvents cid [t1, t2, t3, t4, t5, t6] st = Inr st'
              \<and> reconnectTimers st' =
                  [(5000, cid), (10000, cid), (20000, cid), (40000, cid), (80000, cid)]
              \<and> map_of (connections st') cid = Some ci'
              \<and> \<not> isConnected ci' \<and> reconnectAttempts ci' = 5
              \<and> map_option status (map_of (connectionDetails (connectionStats st')) cid)
                  = Some disconnected))
       \<and> (\<exists>st' ci'. onOpen cid now st = Inr st' \<and> map_of (connections st') cid = Some ci'
              \<and> isConnected ci' \<and> reconnectAttempts ci' = 0)
       \<and> MAX_RECONNECT_ATTEMPTS = 5 \<and> RECONNECT_DELAY_MS = 5000"
proof -
  have a: "reconnectAttempts ci < MAX_RECONNECT_ATTEMPTS \<longrightarrow>
           (\<exists>st'. handleReconnect cid st = Inr st'
              \<and> map_of (connections st') cid =
                  Some (ci \<lparr> reconnectAttempts := reconnectAttempts ci + 1 \<rparr>)
              \<and> reconnectTimers st' =
                  reconnectTimers st @ [(5000 * 2 ^ (reconnectAttempts ci + 1 - 1), cid)])"
    using handleReconnect_schedules[OF assms]
    by (simp add: map_of_update_same RECONNECT_DELAY_MS_def)
  have b: "MAX_RECONNECT_ATTEMPTS \<le> reconnectAttempts ci \<longrightarrow>
           (\<exists>st'. handleReconnect cid st = Inr st'
              \<and> connections st' = connections st
              \<and> reconnectTimers st' = reconnectTimers st
              \<and> map_option status (map_of (connectionDetails (connectionStats st')) cid)
                  = Some disconnected)"
    using handleReconnect_exhausted[OF assms]
    by (simp add: map_of_update_same not_less)
  have c: "clientMode st = continuous \<and> reconnectAttempts ci = 0 \<and> reconnectTimers st = [] \<longrightarrow>
           (\<exists>st' ci'. closeEvents cid [t1, t2, t3, t4, t5, t6] st = Inr st'
              \<and> reconnectTimers st' =
                  [(5000, cid), (10000, cid), (20000, cid), (40000, cid), (80000, cid)]
              \<and> map_of (connections st') cid = Some ci'
              \<and> \<not> isConnected ci' \<and> reconnectAttempts ci' = 5
              \<and> map_option status (map_of (connectionDetails (connectionStats st')) cid)
                  = Some disconnected)"
  proof (intro impI, elim conjE)
    assume m: "clientMode st = continuous" and z: "reconnectAttempts ci = 0"
      and e: "reconnectTimers st = []"
    have le: "reconnectAttempts ci \<le> MAX_RECONNECT_ATTEMPTS" using z by simp
    have u: "[0..<5] = [0, 1, 2, 3, 4::nat]" by (simp add: upt_rec)
    from closeEvents_timers[OF assms m le, of "[t1, t2, t3, t4, t5, t6]"]
    show "\<exists>st' ci'. closeEvents cid [t1, t2, t3, t4, t5, t6] st = Inr st'
              \<and> reconnectTimers st' =
                  [(5000, cid), (10000, cid), (20000, cid), (40000, cid), (80000, cid)]
              \<and> map_of (connections st') cid = Some ci'
              \<and> \<not> isConnected ci' \<and> reconnectAttempts ci' = 5
              \<and> map_option status (map_of (connectionDetails (connectionStats st')) cid)
                  = Some disconnected"
      by (auto simp: z e MAX_RECONNECT_ATTEMPTS_def RECONNECT_DELAY_MS_def u)
  qed
  have d: "\<exists>st' ci'. onOpen cid now st = Inr st' \<and> map_of (connections st') cid = Some ci'
              \<and> isConnected ci' \<and> reconnectAttempts ci' = 0"
    using onOpen_resets[OF assms, of now] by auto
  from a b c d show ?thesis
    by (simp add: MAX_RECONNECT_ATTEMPTS_def RECONNECT_DELAY_MS_def)
qed

theorem reconnect_backoff_witness:
  "map_of (connections (connectedClient continuous historical)) 1 =
     Some \<lparr> ws = Some 0, userAddresses = [''0xAb''], isConnected = True,
            reconnectAttempts = 0, lastHeartbeat = 1000,
            subscriptionTypes = [webData2, allMids] \<rparr>
   \<and> map_of (connectionDetails (connectionStats (connectedClient continuous historical))) 1 =
     Some \<lparr> users = [''0xAb''], status = connected, messagesCount = 0 \<rparr>
   \<and> clientMode (connectedClient continuous historical) = continuous
   \<and> reconnectTimers (connectedClient continuous historical) = []
   \<and> (case closeEvents 1 [2000, 8000, 19000, 40000, 81000, 162000]
              (connectedClient continuous historical) of
         Inl _ \<Rightarrow> []
       | Inr st' \<Rightarrow> reconnectTimers st')
      = [(5000, 1), (10000, 1), (20000, 1), (40000, 1), (80000, 1)]"
proof -
  note f = connectedClient_fields[of continuous]
  note t = reconnect_backoff[OF f(1) f(2), of 2000 8000 19000 40000 81000 162000]
  have pre: "clientMode (connectedClient continuous historical) = continuous
     \<and> reconnectAttempts \<lparr> ws = Some 0, userAddresses = [''0xAb''], isConnected = True,
            reconnectAttempts = 0, lastHeartbeat = 1000,
            subscriptionTypes = [webData2, allMids] \<rparr> = 0
     \<and> reconnectTimers (connectedClient continuous historical) = []"
    by (simp add: f)
  from t pre obtain st' where e1: "closeEvents 1 [2000, 8000, 19000, 40000, 81000, 162000]
              (connectedClient continuous historical) = Inr st'"
    and e2: "reconnectTimers st' = [(5000, 1), (10000, 1), (20000, 1), (40000, 1), (80000, 1)]"
    by blast
  have r: "(case closeEvents 1 [2000, 8000, 19000, 40000, 81000, 162000]
              (connectedClient continuous historical) of
         Inl _ \<Rightarrow> []
       | Inr st' \<Rightarrow> reconnectTimers st')
      = [(5000, 1), (10000, 1), (20000, 1), (40000, 1), (80000, 1)]"
    by (simp only: e1 sum.case e2)
  from f(1) f(2) f(4) f(5) r show ?thesis by blast
qed

lemma saveHistoricalData_frame:
  "connections (saveHistoricalData d st) = connections st"
  "connectionStats (saveHistoricalData d st) = connectionStats st"
  "totalMessagesReceived (saveHistoricalData d st) = totalMessagesReceived st"
  by (simp_all add: saveHistoricalData_def writeFileSync_def Let_def split: option.split sum.split)

lemma saveData_frame:
  "connections (saveData d st) = connections st"
  "connectionStats (saveData d st) = connectionStats st"
  "totalMessagesReceived (saveData d st) = totalMessagesReceived st"
  by (simp_all add: saveData_def saveHistoricalData_frame writeFileSync_def Let_def
      split: option.split)

lemma saveLowestValueEvent_frame:
  "connections (saveLowestValueEvent ev st) = connections st"
  "connectionStats (saveLowestValueEvent ev st) = connectionStats st"
  "totalMessagesReceived (saveLowestValueEvent ev st) = totalMessagesReceived st"
  by (simp_all add: saveLowestValueEvent_def writeFileSync_def Let_def split: option.split)

lemma processWebData2Message_frame:
  "connections (processWebData2Message d now st) = connections st"
  "connectionStats (processWebData2Message d now st) = connectionStats st"
  "totalMessagesReceived (processWebData2Message d now st) = totalMessagesReceived st"
  by (simp_all add: processWebData2Message_def saveLowestValueEvent_frame Let_def split: option.split)

lemma processAllMidsMessage_frame:
  "connections (processAllMidsMessage a now st) = connections st"
  "connectionStats (processAllMidsMessage a now st) = connectionStats st"
  "totalMessagesReceived (processAllMidsMessage a now st) = totalMessagesReceived st"
  by (simp_all add: processAllMidsMessage_def)

text \<open>
  Claim C10. For a message on a connection of the client: when \<^verbatim>\<open>JSON.parse\<close> fails the state
  is unchanged (so a later health check sees the same last heartbeat); when it succeeds,
  whatever the channel, the connection's last heartbeat is set to the current time, its
  message counter and the total message counter are incremented and the statistics record
  mirrors the total and the time; for a channel other than \<^verbatim>\<open>webData2\<close> and
  \<^verbatim>\<open>allMids\<close> nothing else changes.
\<close>

theorem handleMessage_frame:
  assumes "map_of (connections st) cid = Some ci"
    and "map_of (connectionDetails (connectionStats st)) cid = Some det"
  shows "handleMessage cid None now st = st
       \<and> connections (handleMessage cid (Some m) now st) =
           AList.update cid (ci \<lparr> lastHeartbeat := now \<rparr>) (connections st)
       \<and> connectionStats (handleMessage cid (Some m) now st) =
           (connectionStats st)
             \<lparr> connectionDetails :=
                 AList.update cid (det \<lparr> messagesCount := messagesCount det + 1 \<rparr>)
                   (connectionDetails (connectionStats st)),
               messagesReceived := totalMessagesReceived st + 1,
               lastUpdate := now \<rparr>
       \<and> totalMessagesReceived (handleMessage cid (Some m) now st) = totalMessagesReceived st + 1
       \<and> (channel m \<noteq> ''webData2'' \<and> channel m \<noteq> ''allMids'' \<longrightarrow>
            handleMessage cid (Some m) now st =
              st \<lparr> connections := AList.update cid (ci \<lparr> lastHeartbeat := now \<rparr>) (connections st),
                   connectionStats := (connectionStats st)
                     \<lparr> connectionDetails :=
                         AList.update cid (det \<lparr> messagesCount := messagesCount det + 1 \<rparr>)
                           (connectionDetails (connectionStats st)),
                       messagesReceived := totalMessagesReceived st + 1,
                       lastUpdate := now \<rparr>,
                   totalMessagesReceived := totalMessagesReceived st + 1 \<rparr>)
       \<and> performHealthCheck now' (handleMessage cid None now st) = performHealthCheck now' st"
proof -
  have n: "handleMessage cid None now st = st" by (simp add: handleMessage_def)
  have c: "connections (handleMessage cid (Some m) now st) =
           AList.update cid (ci \<lparr> lastHeartbeat := now \<rparr>) (connections st)"
    using assms
    by (cases m) (simp_all add: handleMessage_def Let_def processWebData2Message_frame
        saveData_frame processAllMidsMessage_frame)
  have s: "connectionStats (handleMessage cid (Some m) now st) =
           (connectionStats st)
             \<lparr> connectionDetails :=
                 AList.update cid (det \<lparr> messagesCount := messagesCount det + 1 \<rparr>)
                   (connectionDetails (connectionStats st)),
               messagesReceived := totalMessagesReceived st + 1,
               lastUpdate := now \<rparr>"
    using assms
    by (cases m) (simp_all add: handleMessage_def Let_def processWebData2Message_frame
        saveData_frame processAllMidsMessage_frame)
  have t: "totalMessagesReceived (handleMessage cid (Some m) now st) = totalMessagesReceived st + 1"
    using assms
    by (cases m) (simp_all add: handleMessage_def Let_def processWebData2Message_frame
        saveData_frame processAllMidsMessage_frame)
  have o: "channel m \<noteq> ''webData2'' \<and> channel m \<noteq> ''allMids'' \<longrightarrow>
            handleMessage cid (Some m) now st =
              st \<lparr> connections := AList.update cid (ci \<lparr> lastHeartbeat := now \<rparr>) (connections st),
                   connectionStats := (connectionStats st)
                     \<lparr> connectionDetails :=
                         AList.update cid (det \<lparr> messagesCount := messagesCount det + 1 \<rparr>)
                           (connectionDetails (connectionStats st)),
                       messagesReceived := totalMessagesReceived st + 1,
                       lastUpdate := now \<rparr>,
                   totalMessagesReceived := totalMessagesReceived st + 1 \<rparr>"
    using assms by (cases m) (simp_all add: handleMessage_def Let_def)
  from n c s t o show ?thesis by simp
qed

theorem handleMessage_frame_witness:
  "map_of (connections (connectedClient continuous historical)) 1 =
     Some \<lparr> ws = Some 0, userAddresses = [''0xAb''], isConnected = True,
            reconnectAttempts = 0, lastHeartbeat = 1000,
            subscriptionTypes = [webData2, allMids] \<rparr>
   \<and> map_of (connectionDetails (connectionStats (connectedClient continuous historical))) 1 =
     Some \<lparr> users = [''0xAb''], status = connected, messagesCount = 0 \<rparr>
   \<and> channel (OtherMessage ''pong'') \<noteq> ''webData2''
   \<and> channel (OtherMessage ''pong'') \<noteq> ''allMids''
   \<and> handleMessage 1 None 5000 (connectedClient continuous historical)
       = connectedClient continuous historical
   \<and> map (\<lambda>c. lastHeartbeat (snd c))
        (connections (handleMessage 1 (Some (OtherMessage ''pong'')) 5000
           (connectedClient continuous historical))) = [5000]
   \<and> totalMessagesReceived (handleMessage 1 (Some (OtherMessage ''pong'')) 5000
           (connectedClient continuous historical)) = 1"
proof -
  note f = connectedClient_fields[of continuous]
  note t = handleMessage_frame[OF f(1) f(2), of 5000 "OtherMessage ''pong''"]
  have c: "channel (OtherMessage ''pong'') \<noteq> ''webData2''"
       "channel (OtherMessage ''pong'') \<noteq> ''allMids''" by simp_all
  from t have "connections (handleMessage 1 (Some (OtherMessage ''pong'')) 5000
           (connectedClient continuous historical)) =
        AList.update 1 (\<lparr> ws = Some 0, userAddresses = [''0xAb''], isConnected = True,
            reconnectAttempts = 0, lastHeartbeat = 1000,
            subscriptionTypes = [webData2, allMids] \<rparr> \<lparr> lastHeartbeat := 5000 \<rparr>)
          (connections (connectedClient continuous historical))" by blast
  then have h: "map (\<lambda>c. lastHeartbeat (snd c))
        (connections (handleMessage 1 (Some (OtherMessage ''pong'')) 5000
           (connectedClient continuous historical))) = [5000]"
    by (simp add: f(3))
  from t have "totalMessagesReceived (handleMessage 1 (Some (OtherMessage ''pong'')) 5000
           (connectedClient continuous historical))
      = totalMessagesReceived (connectedClient continuous historical) + 1" by blast
  then have n: "totalMessagesReceived (handleMessage 1 (Some (OtherMessage ''pong'')) 5000
           (connectedClient continuous historical)) = 1" by (simp add: f(6))
  from t have "handleMessage 1 None 5000 (connectedClient continuous historical)
       = connectedClient continuous historical" by blast
  with f(1,2) c h n show ?thesis by blast
qed


section \<open>Shutdown and health check: properties\<close>

lemma closeConnection_simps:
  "fst (closeConnection c) = fst c"
  "ws (snd (closeConnection c)) = None"
  "ws (snd c) \<noteq> None \<Longrightarrow> \<not> isConnected (snd (closeConnection c))"
  "ws (snd c) = None \<Longrightarrow> closeConnection c = c"
  by (auto simp: closeConnection_def split: option.split)

text \<open>
  Claim C9, amended. \<^verbatim>\<open>disconnect\<close> cancels the health-check timer, calls \<^verbatim>\<open>close\<close> on the socket
  of every connection that has one, clears its handle and marks it disconnected; when
  every connection without a socket was already marked disconnected, all connections are
  disconnected afterwards and the active count is 0. Pending reconnect timers are left as
  they are.
\<close>

theorem disconnect_closes:
  "healthCheckInterval (disconnect now st) = False
   \<and> connections (disconnect now st) = map closeConnection (connections st)
   \<and> map fst (connections (disconnect now st)) = map fst (connections st)
   \<and> (\<forall>c \<in> set (connections (disconnect now st)). ws (snd c) = None)
   \<and> (\<forall>c \<in> set (connections st). \<forall>h. ws (snd c) = Some h \<longrightarrow>
         h \<in> set (closedSockets (disconnect now st)) \<and> \<not> isConnected (snd (closeConnection c)))
   \<and> ((\<forall>c \<in> set (connections st). ws (snd c) = None \<longrightarrow> \<not> isConnected (snd c)) \<longrightarrow>
         (\<forall>c \<in> set (connections (disconnect now st)). \<not> isConnected (snd c))
         \<and> activeConnections (connectionStats (disconnect now st)) = 0)
   \<and> reconnectTimers (disconnect now st) = reconnectTimers st"
proof -
  have c: "connections (disconnect now st) = map closeConnection (connections st)"
    by (simp add: disconnect_def updateConnectionStats_def)
  have h: "healthCheckInterval (disconnect now st) = False"
    by (simp add: disconnect_def updateConnectionStats_def)
  have k: "map fst (connections (disconnect now st)) = map fst (connections st)"
    by (simp add: c closeConnection_simps)
  have w: "\<forall>c \<in> set (connections (disconnect now st)). ws (snd c) = None"
    by (auto simp: c closeConnection_simps)
  have cl: "closedSockets (disconnect now st) =
      closedSockets st @ List.map_filter (\<lambda>c. ws (snd c)) (connections st)"
    by (simp add: disconnect_def updateConnectionStats_def)
  have s: "\<forall>c \<in> set (connections st). \<forall>h. ws (snd c) = Some h \<longrightarrow>
         h \<in> set (closedSockets (disconnect now st)) \<and> \<not> isConnected (snd (closeConnection c))"
  proof (intro ballI allI impI)
    fix c h assume "c \<in> set (connections st)" and "ws (snd c) = Some h"
    then show "h \<in> set (closedSockets (disconnect now st)) \<and> \<not> isConnected (snd (closeConnection c))"
      by (force simp: cl List.map_filter_def closeConnection_simps)
  qed
  have a: "(\<forall>c \<in> set (connections st). ws (snd c) = None \<longrightarrow> \<not> isConnected (snd c)) \<longrightarrow>
         (\<forall>c \<in> set (connections (disconnect now st)). \<not> isConnected (snd c))
         \<and> activeConnections (connectionStats (disconnect now st)) = 0"
  proof
    assume inv: "\<forall>c \<in> set (connections st). ws (snd c) = None \<longrightarrow> \<not> isConnected (snd c)"
    have n: "\<not> isConnected (snd (closeConnection c))" if "c \<in> set (connections st)" for c
      using inv that by (cases "ws (snd c)") (auto simp: closeConnection_simps)
    then have all: "\<forall>c \<in> set (connections (disconnect now st)). \<not> isConnected (snd c)"
      by (auto simp: c)
    have "activeConnections (connectionStats (disconnect now st)) =
        length (filter (\<lambda>c. isConnected (snd c)) (map closeConnection (connections st)))"
      by (simp add: disconnect_def updateConnectionStats_def)
    also have "\<dots> = 0" using n by (simp add: filter_empty_conv)
    finally show "(\<forall>c \<in> set (connections (disconnect now st)). \<not> isConnected (snd c))
         \<and> activeConnections (connectionStats (disconnect now st)) = 0"
      using all by simp
  qed
  have t: "reconnectTimers (disconnect now st) = reconnectTimers st"
    by (simp add: disconnect_def updateConnectionStats_def)
  from h c k w s a t show ?thesis by blast
qed

lemma droppedClient_eq:
  "droppedClient =
     (connectedClient continuous historical)
       \<lparr> connections := [(1, \<lparr> ws = Some 0, userAddresses = [''0xAb''], isConnected = False,
                             reconnectAttempts = 1, lastHeartbeat = 1000,
                             subscriptionTypes = [webData2, allMids] \<rparr>)],
         connectionStats := \<lparr> totalConnections = 1, activeConnections = 0,
                            totalUsers = 1, messagesReceived = 0,
                            lastUpdate = 2000,
                            connectionDetails = [(1, \<lparr> users = [''0xAb''], status = reconnecting, messagesCount = 0 \<rparr>)] \<rparr>,
         reconnectTimers := [(5000, 1)] \<rparr>"
  by (simp add: droppedClient_def connectedClient_historical startedClient_historical onClose_def
      updateConnectionStats_def setStatus_def handleReconnect_def Let_def
      MAX_RECONNECT_ATTEMPTS_def RECONNECT_DELAY_MS_def)

text \<open>
  Claim C9 as stated fails: after a close event in continuous mode a reconnect timer is
  pending; \<^verbatim>\<open>disconnect\<close> leaves it pending, and when it fires \<^verbatim>\<open>connectSingle\<close> opens a
  new socket on the connection.
\<close>

theorem disconnect_leaves_timer_counterexample:
  "reconnectTimers droppedClient = [(5000, 1)]
   \<and> reconnectTimers (disconnect 3000 droppedClient) = [(5000, 1)]
   \<and> map (\<lambda>c. ws (snd c)) (connections (disconnect 3000 droppedClient)) = [None]
   \<and> map (\<lambda>c. ws (snd c)) (connections (fireReconnectTimer 0 (disconnect 3000 droppedClient)))
       = [Some 1]"
  by (simp add: droppedClient_eq connectedClient_historical startedClient_historical
      disconnect_def updateConnectionStats_def closeConnection_def fireReconnectTimer_def
      connectSingle_def)

theorem disconnect_closes_witness:
  "list_all (\<lambda>c. ws (snd c) = None \<longrightarrow> \<not> isConnected (snd c)) (connections droppedClient)
   \<and> map (\<lambda>c. ws (snd c)) (connections droppedClient) = [Some 0]
   \<and> closedSockets (disconnect 3000 droppedClient) = [0]
   \<and> healthCheckInterval (disconnect 3000 droppedClient) = False
   \<and> map (\<lambda>c. (ws (snd c), isConnected (snd c))) (connections (disconnect 3000 droppedClient))
       = [(None, False)]
   \<and> activeConnections (connectionStats (disconnect 3000 droppedClient)) = 0"
proof -
  have i: "\<forall>c \<in> set (connections droppedClient). ws (snd c) = None \<longrightarrow> \<not> isConnected (snd c)"
    by (simp add: droppedClient_eq)
  have l: "map (\<lambda>c. ws (snd c)) (connections droppedClient) = [Some 0]"
    by (simp add: droppedClient_eq)
  note t = disconnect_closes[of 3000 droppedClient]
  from t i have a: "activeConnections (connectionStats (disconnect 3000 droppedClient)) = 0"
    by blast
  from t have h: "healthCheckInterval (disconnect 3000 droppedClient) = False" by blast
  from t have "connections (disconnect 3000 droppedClient) = map closeConnection (connections droppedClient)"
    by blast
  then have m: "map (\<lambda>c. (ws (snd c), isConnected (snd c))) (connections (disconnect 3000 droppedClient))
       = [(None, False)]"
    by (simp add: droppedClient_eq closeConnection_def)
  have c: "closedSockets (disconnect 3000 droppedClient) = [0]"
    by (simp add: disconnect_def updateConnectionStats_def droppedClient_eq
        connectedClient_historical startedClient_historical)
  from i l a h m c show ?thesis by (simp add: list_all_iff)
qed

lemma detailsComplete_lookup:
  "detailsComplete st \<Longrightarrow> map_of (connections st) k = Some ci \<Longrightarrow>
     \<exists>det. map_of (connectionDetails (connectionStats st)) k = Some det"
proof -
  assume d: "detailsComplete st" and c: "map_of (connections st) k = Some ci"
  from c have "k \<in> fst ` set (connections st)" by (metis map_of_eq_None_iff option.distinct(1))
  with d show ?thesis by (auto simp: detailsComplete_def list_all_iff)
qed

lemma checkConnection_oneOff:
  "clientMode st \<noteq> continuous \<Longrightarrow> checkConnection now (Inr st) k = Inr st"
  by (simp add: checkConnection_def split: option.split)

lemma foldl_checkConnection_oneOff:
  "clientMode st \<noteq> continuous \<Longrightarrow> foldl (checkConnection now) (Inr st) ks = Inr st"
  by (induction ks) (simp_all add: checkConnection_oneOff)

lemma checkConnection_continuous:
  assumes m: "clientMode st = continuous" and d: "detailsComplete st"
  shows "\<exists>st'. checkConnection now (Inr st) k = Inr st' \<and> clientMode st' = continuous
     \<and> detailsComplete st'
     \<and> (\<forall>k'. k' \<noteq> k \<longrightarrow> map_of (connections st') k' = map_of (connections st) k')
     \<and> set (reconnectTimers st) \<subseteq> set (reconnectTimers st')
     \<and> (\<forall>ci. map_of (connections st) k = Some ci \<longrightarrow> unhealthy now ci \<longrightarrow>
           (\<exists>ci'. map_of (connections st') k = Some ci' \<and> \<not> isConnected ci')
           \<and> (reconnectAttempts ci < MAX_RECONNECT_ATTEMPTS \<longrightarrow>
                (RECONNECT_DELAY_MS * 2 ^ reconnectAttempts ci, k) \<in> set (reconnectTimers st')))"
proof (cases "map_of (connections st) k")
  case None
  then have "checkConnection now (Inr st) k = Inr st" by (simp add: checkConnection_def)
  with m d None show ?thesis by simp
next
  case (Some ci)
  show ?thesis
  proof (cases "unhealthy now ci")
    case False
    then have "checkConnection now (Inr st) k = Inr st"
      using Some by (auto simp: checkConnection_def unhealthy_def)
    with m d Some False show ?thesis by simp
  next
    case True
    from detailsComplete_lookup[OF d Some] obtain det
      where det: "map_of (connectionDetails (connectionStats st)) k = Some det" by blast
    define st0 where "st0 = st \<lparr> connections :=
        AList.update k (ci \<lparr> isConnected := False \<rparr>) (connections st) \<rparr>"
    define ci0 where "ci0 = ci \<lparr> isConnected := False \<rparr>"
    have c0: "map_of (connections st0) k = Some ci0"
      by (simp add: st0_def ci0_def map_of_update_same)
    have d0: "map_of (connectionDetails (connectionStats st0)) k = Some det"
      by (simp add: st0_def det)
    have chk: "checkConnection now (Inr st) k = handleReconnect k st0"
      using Some True m by (simp add: checkConnection_def unhealthy_def st0_def)
    have keys0: "map fst (connections st0) = map fst (connections st)"
      by (simp add: st0_def keys_update_present[OF Some])
    show ?thesis
    proof (cases "reconnectAttempts ci < MAX_RECONNECT_ATTEMPTS")
      case lt: True
      then have lt0: "reconnectAttempts ci0 < MAX_RECONNECT_ATTEMPTS" by (simp add: ci0_def)
      note r = handleReconnect_schedules[OF c0 d0 lt0]
      define st' where "st' = st0 \<lparr> connections :=
                 AList.update k (ci0 \<lparr> reconnectAttempts := reconnectAttempts ci0 + 1 \<rparr>) (connections st0),
               connectionStats := (connectionStats st0)
                 \<lparr> connectionDetails :=
                     AList.update k (det \<lparr> status := reconnecting \<rparr>)
                       (connectionDetails (connectionStats st0)) \<rparr>,
               reconnectTimers :=
                 reconnectTimers st0 @ [(RECONNECT_DELAY_MS * 2 ^ reconnectAttempts ci0, k)] \<rparr>"
      have e: "checkConnection now (Inr st) k = Inr st'" unfolding chk r st'_def ..
      have keys: "map fst (connections st') = map fst (connections st)"
        by (simp add: st'_def keys_update_present[OF c0] keys0)
      have det': "connectionDetails (connectionStats st') =
          AList.update k (det \<lparr> status := reconnecting \<rparr>) (connectionDetails (connectionStats st))"
        by (simp add: st'_def st0_def)
      have dc: "detailsComplete st'"
        using d by (auto simp: detailsComplete_def list_all_iff keys det' AList.update_conv')
      have o: "\<forall>k'. k' \<noteq> k \<longrightarrow> map_of (connections st') k' = map_of (connections st) k'"
        by (simp add: st'_def st0_def map_of_update_other)
      have c': "map_of (connections st') k = Some (ci0 \<lparr> reconnectAttempts := reconnectAttempts ci0 + 1 \<rparr>)"
        by (simp add: st'_def map_of_update_same)
      have t: "reconnectTimers st' = reconnectTimers st @ [(RECONNECT_DELAY_MS * 2 ^ reconnectAttempts ci, k)]"
        by (simp add: st'_def st0_def ci0_def)
      show ?thesis
        using e m dc o c' t Some by (auto simp: st'_def st0_def ci0_def)
    next
      case ge: False
      then have ge0: "\<not> reconnectAttempts ci0 < MAX_RECONNECT_ATTEMPTS" by (simp add: ci0_def)
      note r = handleReconnect_exhausted[OF c0 d0 ge0]
      define st' where "st' = st0 \<lparr> connectionStats := (connectionStats st0)
                 \<lparr> connectionDetails :=
                     AList.update k (det \<lparr> status := disconnected \<rparr>)
                       (connectionDetails (connectionStats st0)) \<rparr> \<rparr>"
      have e: "checkConnection now (Inr st) k = Inr st'" unfolding chk r st'_def ..
      have keys: "map fst (connections st') = map fst (connections st)"
        by (simp add: st'_def keys0)
      have det': "connectionDetails (connectionStats st') =
          AList.update k (det \<lparr> status := disconnected \<rparr>) (connectionDetails (connectionStats st))"
        by (simp add: st'_def st0_def)
      have dc: "detailsComplete st'"
        using d by (auto simp: detailsComplete_def list_all_iff keys det' AList.update_conv')
      have o: "\<forall>k'. k' \<noteq> k \<longrightarrow> map_of (connections st') k' = map_of (connections st) k'"
        by (simp add: st'_def st0_def map_of_update_other)
      have c': "map_of (connections st') k = Some ci0"
        by (simp add: st'_def c0)
      have t: "reconnectTimers st' = reconnectTimers st"
        by (simp add: st'_def st0_def)
      show ?thesis
        using e m dc o c' t Some ge by (auto simp: st'_def st0_def ci0_def)
    qed
  qed
qed

lemma foldl_checkConnection_continuous:
  assumes "distinct ks" and "clientMode st = continuous" and "detailsComplete st"
  shows "\<exists>st'. foldl (checkConnection now) (Inr st) ks = Inr st' \<and> clientMode st' = continuous
     \<and> (\<forall>k. k \<notin> set ks \<longrightarrow> map_of (connections st') k = map_of (connections st) k)
     \<and> set (reconnectTimers st) \<subseteq> set (reconnectTimers st')
     \<and> (\<forall>k \<in> set ks. \<forall>ci. map_of (connections st) k = Some ci \<longrightarrow> unhealthy now ci \<longrightarrow>
           (\<exists>ci'. map_of (connections st') k = Some ci' \<and> \<not> isConnected ci')
           \<and> (reconnectAttempts ci < MAX_RECONNECT_ATTEMPTS \<longrightarrow>
                (RECONNECT_DELAY_MS * 2 ^ reconnectAttempts ci, k) \<in> set (reconnectTimers st')))"
  using assms
proof (induction ks arbitrary: st)
  case Nil
  then show ?case by simp
next
  case (Cons k ks)
  from checkConnection_continuous[OF Cons.prems(2,3), of now k]
  obtain st1 where
    e1: "checkConnection now (Inr st) k = Inr st1" and m1: "clientMode st1 = continuous"
    and d1: "detailsComplete st1"
    and o1: "\<forall>k'. k' \<noteq> k \<longrightarrow> map_of (connections st1) k' = map_of (connections st) k'"
    and t1: "set (reconnectTimers st) \<subseteq> set (reconnectTimers st1)"
    and u1: "\<forall>ci. map_of (connections st) k = Some ci \<longrightarrow> unhealthy now ci \<longrightarrow>
           (\<exists>ci'. map_of (connections st1) k = Some ci' \<and> \<not> isConnected ci')
           \<and> (reconnectAttempts ci < MAX_RECONNECT_ATTEMPTS \<longrightarrow>
                (RECONNECT_DELAY_MS * 2 ^ reconnectAttempts ci, k) \<in> set (reconnectTimers st1))"
    by blast
  from Cons.prems(1) have dk: "distinct ks" and nk: "k \<notin> set ks" by simp_all
  from Cons.IH[OF dk m1 d1]
  obtain st' where
    e: "foldl (checkConnection now) (Inr st1) ks = Inr st'" and m: "clientMode st' = continuous"
    and o: "\<forall>k'. k' \<notin> set ks \<longrightarrow> map_of (connections st') k' = map_of (connections st1) k'"
    and t: "set (reconnectTimers st1) \<subseteq> set (reconnectTimers st')"
    and u: "\<forall>k' \<in> set ks. \<forall>ci. map_of (connections st1) k' = Some ci \<longrightarrow> unhealthy now ci \<longrightarrow>
           (\<exists>ci'. map_of (connections st') k' = Some ci' \<and> \<not> isConnected ci')
           \<and> (reconnectAttempts ci < MAX_RECONNECT_ATTEMPTS \<longrightarrow>
                (RECONNECT_DELAY_MS * 2 ^ reconnectAttempts ci, k') \<in> set (reconnectTimers st'))"
    by blast
  have f: "foldl (checkConnection now) (Inr st) (k # ks) = Inr st'" by (simp add: e1 e)
  have fr: "\<forall>k'. k' \<notin> set (k # ks) \<longrightarrow> map_of (connections st') k' = map_of (connections st) k'"
    using o o1 by simp
  have tt: "set (reconnectTimers st) \<subseteq> set (reconnectTimers st')" using t1 t by blast
  have uu: "\<forall>k' \<in> set (k # ks). \<forall>ci. map_of (connections st) k' = Some ci \<longrightarrow> unhealthy now ci \<longrightarrow>
           (\<exists>ci'. map_of (connections st') k' = Some ci' \<and> \<not> isConnected ci')
           \<and> (reconnectAttempts ci < MAX_RECONNECT_ATTEMPTS \<longrightarrow>
                (RECONNECT_DELAY_MS * 2 ^ reconnectAttempts ci, k') \<in> set (reconnectTimers st'))"
  proof (intro ballI allI impI)
    fix k' ci
    assume k': "k' \<in> set (k # ks)" and c: "map_of (connections st) k' = Some ci"
      and un: "unhealthy now ci"
    show "(\<exists>ci'. map_of (connections st') k' = Some ci' \<and> \<not> isConnected ci')
           \<and> (reconnectAttempts ci < MAX_RECONNECT_ATTEMPTS \<longrightarrow>
                (RECONNECT_DELAY_MS * 2 ^ reconnectAttempts ci, k') \<in> set (reconnectTimers st'))"
    proof (cases "k' = k")
      case True
      from u1 c un True have
        a: "\<exists>ci'. map_of (connections st1) k = Some ci' \<and> \<not> isConnected ci'"
        and b: "reconnectAttempts ci < MAX_RECONNECT_ATTEMPTS \<longrightarrow>
                (RECONNECT_DELAY_MS * 2 ^ reconnectAttempts ci, k) \<in> set (reconnectTimers st1)"
        by simp_all
      from o nk have "map_of (connections st') k = map_of (connections st1) k" by simp
      with a b t True show ?thesis by auto
    next
      case False
      with k' have ks: "k' \<in> set ks" by simp
      from o1 False c have "map_of (connections st1) k' = Some ci" by simp
      with u ks un show ?thesis by blast
    qed
  qed
  from f m fr tt uu show ?case by blast
qed

lemma healthCheck_general:
  assumes "distinct (map fst (connections st))" and "detailsComplete st"
    and "map_of (connections st) cid = Some ci"
    and "isConnected ci" and "now - lastHeartbeat ci > HEALTH_CHECK_INTERVAL * 2"
  shows "\<exists>st'. performHealthCheck now st = Inr st'
     \<and> (clientMode st = continuous \<longrightarrow>
          (\<exists>ci'. map_of (connections st') cid = Some ci' \<and> \<not> isConnected ci')
          \<and> (reconnectAttempts ci < MAX_RECONNECT_ATTEMPTS \<longrightarrow>
               (RECONNECT_DELAY_MS * 2 ^ reconnectAttempts ci, cid) \<in> set (reconnectTimers st')))
     \<and> (clientMode st = oneOff \<longrightarrow>
          connections st' = connections st \<and> reconnectTimers st' = reconnectTimers st)"
proof (cases "clientMode st")
  case continuous
  from assms(3) have k: "cid \<in> set (map fst (connections st))"
    by (metis map_of_eq_None_iff option.distinct(1) set_map)
  have un: "unhealthy now ci" using assms(4,5) by (simp add: unhealthy_def)
  from foldl_checkConnection_continuous[OF assms(1) continuous assms(2), of now]
  obtain st1 where
    e: "foldl (checkConnection now) (Inr st) (map fst (connections st)) = Inr st1"
    and u: "\<forall>k \<in> set (map fst (connections st)). \<forall>ci. map_of (connections st) k = Some ci \<longrightarrow> unhealthy now ci \<longrightarrow>
           (\<exists>ci'. map_of (connections st1) k = Some ci' \<and> \<not> isConnected ci')
           \<and> (reconnectAttempts ci < MAX_RECONNECT_ATTEMPTS \<longrightarrow>
                (RECONNECT_DELAY_MS * 2 ^ reconnectAttempts ci, k) \<in> set (reconnectTimers st1))"
    by blast
  from u k assms(3) un have
    a: "\<exists>ci'. map_of (connections st1) cid = Some ci' \<and> \<not> isConnected ci'"
    and b: "reconnectAttempts ci < MAX_RECONNECT_ATTEMPTS \<longrightarrow>
                (RECONNECT_DELAY_MS * 2 ^ reconnectAttempts ci, cid) \<in> set (reconnectTimers st1)"
    by blast+
  have "performHealthCheck now st = Inr (updateConnectionStats now st1)"
    by (simp add: performHealthCheck_def e)
  moreover have "connections (updateConnectionStats now st1) = connections st1"
    "reconnectTimers (updateConnectionStats now st1) = reconnectTimers st1"
    by (simp_all add: updateConnectionStats_def)
  ultimately show ?thesis using a b continuous by simp
next
  case oneOff
  then have "foldl (checkConnection now) (Inr st) (map fst (connections st)) = Inr st"
    by (simp add: foldl_checkConnection_oneOff)
  then have "performHealthCheck now st = Inr (updateConnectionStats now st)"
    by (simp add: performHealthCheck_def)
  then show ?thesis using oneOff by (simp add: updateConnectionStats_def)
qed

text \<open>
  Claim C8 as stated fails: in \<^verbatim>\<open>oneOff\<close> mode the connected but silent connection is still
  flagged connected after the health check.
\<close>

theorem healthCheck_oneOff_counterexample:
  "map (\<lambda>c. (isConnected (snd c), lastHeartbeat (snd c))) (connections (connectedClient oneOff historical))
     = [(True, 1000)]
   \<and> 100000 - 1000 > HEALTH_CHECK_INTERVAL * 2
   \<and> (case performHealthCheck 100000 (connectedClient oneOff historical) of
         Inl _ \<Rightarrow> []
       | Inr st' \<Rightarrow> map (\<lambda>c. isConnected (snd c)) (connections st')) = [True]"
  by (simp add: connectedClient_historical startedClient_historical performHealthCheck_def
      checkConnection_def updateConnectionStats_def HEALTH_CHECK_INTERVAL_def)

section \<open>Persistence: properties\<close>







lemma newClient_example:
  "newClient [''0xAb''] cm historical ''20250110'' now Map.empty = Some (initialClient cm now Map.empty)"
  by (simp add: newClient_def emptyClient_def initializeTokenMapping_def
      initializeUserData_def initializeUser_def setupConnectionGroups_def groupUsers_single
      MAX_USERS_PER_CONNECTION_def addConnection_def SUBSCRIPTION_TYPES_def
      loadExistingData_def loadUser_def readPath_def initialClient_def
      historicalDataPath_def historicalLowestPath_def toLowerCase_example Let_def)

lemma toLowerCase_example2: "toLowerCase ''0xab'' = ''0xab''"
  by (simp add: toLowerCase_def toLowerChar_def)

lemma missing_value_entry:
  "marginAccountValue missingValueUpdate = None"
  "createHistoricalDataEntry [] [] missingValueUpdate =
       Inr \<lparr> totalAccountValue = Fin 0, clearinghouseValue = ''0'', spotBalance = [],
             pricesUsed = [], entryServerTime = 1673612345678, priceSource = entryNtlSource \<rparr>"
  "validTime (serverTime missingValueUpdate)"
  "user missingValueUpdate = ''0xab''"
  by (simp_all add: missingValueUpdate_def marginAccountValue_def createHistoricalDataEntry_def
      orDefault_def calculateTotalAccountValue_def parseFloat_0 validTime_def
      SUBSCRIPTION_TYPES_def)

text \<open>
  Claim C5 as stated fails: for an account update without a margin summary,
  \<^verbatim>\<open>createHistoricalDataEntry\<close> signals no error; it returns a snapshot whose margin
  component is \<^verbatim>\<open>"0"\<close>.
\<close>

theorem missing_value_counterexample:
  "marginAccountValue missingValueUpdate = None
   \<and> createHistoricalDataEntry [] [] missingValueUpdate =
       Inr \<lparr> totalAccountValue = Fin 0, clearinghouseValue = ''0'', spotBalance = [],
             pricesUsed = [], entryServerTime = 1673612345678, priceSource = entryNtlSource \<rparr>"
  by (simp add: missing_value_entry)

lemma saveHistoricalData_history:
  assumes "findOriginalUserAddress st (user d) = Some orig"
    and "createHistoricalDataEntry (latestPrices st) (tokenToAllMidsMapping st) d = Inr e"
  shows "map_of (userExistingHistoricalData (saveHistoricalData d st)) orig =
           Some ((case map_of (userExistingHistoricalData st) orig of None \<Rightarrow> [] | Some l \<Rightarrow> l) @ [e])"
    and "v \<noteq> orig \<Longrightarrow> map_of (userExistingHistoricalData (saveHistoricalData d st)) v
           = map_of (userExistingHistoricalData st) v"
    and "v \<noteq> orig \<Longrightarrow> map_of (userLowestTotalAccountValues (saveHistoricalData d st)) v
           = map_of (userLowestTotalAccountValues st) v"
  using assms
  by (simp_all add: saveHistoricalData_def writeFileSync_def Let_def map_of_update_same
      map_of_update_other split: option.split)

text \<open>
  Claim C5, amended. For every account update whose margin-summary account value is absent
  (and whose server time is a valid date), \<^verbatim>\<open>createHistoricalDataEntry\<close> returns a
  snapshot: the margin component is \<^verbatim>\<open>"0"\<close> and the total is the valuation of the spot
  balances on top of 0. \<^verbatim>\<open>saveHistoricalData\<close> appends that snapshot to the history of the
  configured account the message is for, and leaves the history and the lowest tracker of
  every other account unchanged.
\<close>

theorem missing_value_defaults_to_zero:
  assumes "marginAccountValue d = None" and "validTime (serverTime d)"
  shows "\<exists>e. createHistoricalDataEntry (latestPrices st) (tokenToAllMidsMapping st) d = Inr e
     \<and> clearinghouseValue e = ''0''
     \<and> totalAccountValue e =
         (if latestPrices st = []
          then calculateTotalAccountValue ''0''
                 (case spotState d of None \<Rightarrow> [] | Some s \<Rightarrow> balances s)
          else fst (calculateTotalAccountValueWithCurrentPrices (latestPrices st)
                 (tokenToAllMidsMapping st) ''0''
                 (case spotState d of None \<Rightarrow> [] | Some s \<Rightarrow> balances s)))
     \<and> (\<forall>orig. findOriginalUserAddress st (user d) = Some orig \<longrightarrow>
           map_of (userExistingHistoricalData (saveHistoricalData d st)) orig =
             Some ((case map_of (userExistingHistoricalData st) orig of
                      None \<Rightarrow> [] | Some l \<Rightarrow> l) @ [e])
           \<and> (\<forall>v. v \<noteq> orig \<longrightarrow>
                 map_of (userExistingHistoricalData (saveHistoricalData d st)) v
                   = map_of (userExistingHistoricalData st) v
                 \<and> map_of (userLowestTotalAccountValues (saveHistoricalData d st)) v
                   = map_of (userLowestTotalAccountValues st) v))"
proof -
  define e where "e = \<lparr> totalAccountValue =
         (if latestPrices st = []
          then calculateTotalAccountValue ''0''
                 (case spotState d of None \<Rightarrow> [] | Some s \<Rightarrow> balances s)
          else fst (calculateTotalAccountValueWithCurrentPrices (latestPrices st)
                 (tokenToAllMidsMapping st) ''0''
                 (case spotState d of None \<Rightarrow> [] | Some s \<Rightarrow> balances s))),
       clearinghouseValue = ''0'',
       spotBalance = (case spotState d of None \<Rightarrow> [] | Some s \<Rightarrow> balances s),
       pricesUsed =
         (if latestPrices st = []
          then foldl recordEntryNtl [] (case spotState d of None \<Rightarrow> [] | Some s \<Rightarrow> balances s)
          else snd (calculateTotalAccountValueWithCurrentPrices (latestPrices st)
                 (tokenToAllMidsMapping st) ''0''
                 (case spotState d of None \<Rightarrow> [] | Some s \<Rightarrow> balances s))),
       entryServerTime = serverTime d,
       priceSource = (if latestPrices st = [] then entryNtlSource else currentPrices) \<rparr>"
  have c: "createHistoricalDataEntry (latestPrices st) (tokenToAllMidsMapping st) d = Inr e"
    using assms by (simp add: createHistoricalDataEntry_def orDefault_def Let_def e_def
        SUBSCRIPTION_TYPES_def)
  have v: "clearinghouseValue e = ''0''" by (simp add: e_def)
  have t: "totalAccountValue e =
         (if latestPrices st = []
          then calculateTotalAccountValue ''0''
                 (case spotState d of None \<Rightarrow> [] | Some s \<Rightarrow> balances s)
          else fst (calculateTotalAccountValueWithCurrentPrices (latestPrices st)
                 (tokenToAllMidsMapping st) ''0''
                 (case spotState d of None \<Rightarrow> [] | Some s \<Rightarrow> balances s)))"
    by (simp add: e_def)
  have h: "\<forall>orig. findOriginalUserAddress st (user d) = Some orig \<longrightarrow>
           map_of (userExistingHistoricalData (saveHistoricalData d st)) orig =
             Some ((case map_of (userExistingHistoricalData st) orig of
                      None \<Rightarrow> [] | Some l \<Rightarrow> l) @ [e])
           \<and> (\<forall>v. v \<noteq> orig \<longrightarrow>
                 map_of (userExistingHistoricalData (saveHistoricalData d st)) v
                   = map_of (userExistingHistoricalData st) v
                 \<and> map_of (userLowestTotalAccountValues (saveHistoricalData d st)) v
                   = map_of (userLowestTotalAccountValues st) v)"
    using saveHistoricalData_history[OF _ c] by blast
  from c v t h show ?thesis by (intro exI[of _ e] conjI)
qed

theorem missing_value_defaults_to_zero_witness:
  "marginAccountValue missingValueUpdate = None
   \<and> validTime (serverTime missingValueUpdate)
   \<and> findOriginalUserAddress (initialClient continuous 0 Map.empty) (user missingValueUpdate)
       = Some ''0xAb''
   \<and> map_of (userExistingHistoricalData
        (saveHistoricalData missingValueUpdate (initialClient continuous 0 Map.empty))) ''0xAb''
       = Some [\<lparr> totalAccountValue = Fin 0, clearinghouseValue = ''0'', spotBalance = [],
                  pricesUsed = [], entryServerTime = 1673612345678,
                  priceSource = entryNtlSource \<rparr>]"
proof -
  note f = missing_value_entry
  define st where "st = initialClient continuous 0 Map.empty"
  have lp: "latestPrices st = []" "tokenToAllMidsMapping st = []"
    "map_of (userExistingHistoricalData st) ''0xAb'' = Some []"
    by (simp_all add: st_def initialClient_def)
  have o: "findOriginalUserAddress st (user missingValueUpdate) = Some ''0xAb''"
    by (simp add: findOriginalUserAddress_def st_def initialClient_def f(4)
        toLowerCase_example toLowerCase_example2)
  from missing_value_defaults_to_zero[OF f(1) f(3), of st]
  obtain e where c: "createHistoricalDataEntry (latestPrices st) (tokenToAllMidsMapping st)
        missingValueUpdate = Inr e"
    and h: "\<forall>orig. findOriginalUserAddress st (user missingValueUpdate) = Some orig \<longrightarrow>
           map_of (userExistingHistoricalData (saveHistoricalData missingValueUpdate st)) orig =
             Some ((case map_of (userExistingHistoricalData st) orig of
                      None \<Rightarrow> [] | Some l \<Rightarrow> l) @ [e])"
    by blast
  from c have e: "e = \<lparr> totalAccountValue = Fin 0, clearinghouseValue = ''0'', spotBalance = [],
             pricesUsed = [], entryServerTime = 1673612345678, priceSource = entryNtlSource \<rparr>"
    by (simp add: lp f(2))
  from h o have "map_of (userExistingHistoricalData (saveHistoricalData missingValueUpdate st)) ''0xAb''
      = Some ((case map_of (userExistingHistoricalData st) ''0xAb'' of
                      None \<Rightarrow> [] | Some l \<Rightarrow> l) @ [e])" by blast
  then have "map_of (userExistingHistoricalData (saveHistoricalData missingValueUpdate st)) ''0xAb''
      = Some [e]" by (simp add: lp)
  with f(1) f(3) o show ?thesis unfolding e st_def by simp
qed

section \<open>Reachable states and the health check\<close>

lemma keys_update_aligned:
  "map fst al = map fst bl \<Longrightarrow> map fst (AList.update k v al) = map fst (AList.update k w bl)"
proof (induction al arbitrary: bl)
  case Nil
  then show ?case by simp
next
  case (Cons a al)
  then obtain b bl' where b: "bl = b # bl'" by (cases bl) auto
  with Cons.prems have "fst a = fst b" "map fst al = map fst bl'" by simp_all
  with Cons.IH[of bl'] b show ?case by simp
qed

lemma set_update_subset:
  "p \<in> set (AList.update k v al) \<Longrightarrow> p = (k, v) \<or> p \<in> set al"
  by (induction al) (auto split: if_splits)

lemma connInv_add:
  assumes "connInv cs ds" and "isConnected v \<longrightarrow> reconnectAttempts v = 0"
  shows "connInv (AList.update k v cs) (AList.update k w ds)"
proof -
  from assms(1) have d: "distinct (map fst cs)" and a: "map fst ds = map fst cs"
    and f: "\<forall>c \<in> set cs. isConnected (snd c) \<longrightarrow> reconnectAttempts (snd c) = 0"
    by (simp_all add: connInv_def list_all_iff)
  have "distinct (map fst (AList.update k v cs))" using d by (rule AList.distinct_update)
  moreover have "map fst (AList.update k w ds) = map fst (AList.update k v cs)"
    using a by (rule keys_update_aligned)
  moreover have "\<forall>c \<in> set (AList.update k v cs). isConnected (snd c) \<longrightarrow> reconnectAttempts (snd c) = 0"
    using f assms(2) by (auto dest: set_update_subset)
  ultimately show ?thesis by (simp add: connInv_def list_all_iff)
qed

lemma connInv_conn:
  assumes "connInv cs ds" and "map_of cs k = Some ci"
    and "isConnected v \<longrightarrow> reconnectAttempts v = 0"
  shows "connInv (AList.update k v cs) ds"
proof -
  from assms(1) have d: "distinct (map fst cs)" and a: "map fst ds = map fst cs"
    and f: "\<forall>c \<in> set cs. isConnected (snd c) \<longrightarrow> reconnectAttempts (snd c) = 0"
    by (simp_all add: connInv_def list_all_iff)
  have "distinct (map fst (AList.update k v cs))" using d by (rule AList.distinct_update)
  moreover have "map fst (AList.update k v cs) = map fst cs"
    by (rule keys_update_present[OF assms(2)])
  moreover have "\<forall>c \<in> set (AList.update k v cs). isConnected (snd c) \<longrightarrow> reconnectAttempts (snd c) = 0"
    using f assms(3) by (auto dest: set_update_subset)
  ultimately show ?thesis using a by (simp add: connInv_def list_all_iff)
qed

lemma connInv_details:
  assumes "connInv cs ds" and "map_of ds k = Some d"
  shows "connInv cs (AList.update k d' ds)"
  using assms keys_update_present[OF assms(2), of d'] by (simp add: connInv_def)

lemma connInv_lookup:
  assumes "connInv cs ds" and "map_of cs k = Some ci"
  shows "(isConnected ci \<longrightarrow> reconnectAttempts ci = 0) \<and> (\<exists>d. map_of ds k = Some d)"
proof -
  from assms(2) have m: "(k, ci) \<in> set cs" by (rule map_of_SomeD)
  with assms(1) have a: "isConnected ci \<longrightarrow> reconnectAttempts ci = 0"
    by (auto simp: connInv_def list_all_iff)
  from m have "k \<in> set (map fst cs)" by force
  with assms(1) have "k \<in> set (map fst ds)" by (simp add: connInv_def)
  then have "map_of ds k \<noteq> None" by (simp add: map_of_eq_None_iff)
  with a show ?thesis by auto
qed

lemma updateConnectionStats_lifecycle:
  "lifecycleInv (updateConnectionStats now st) = lifecycleInv st"
  by (simp add: lifecycleInv_def updateConnectionStats_def)

lemma setStatus_lifecycle:
  assumes "setStatus cid s st = Inr st'" and "lifecycleInv st"
  shows "lifecycleInv st'" and "connections st' = connections st"
  using assms
  by (auto simp: setStatus_def lifecycleInv_def split: option.splits intro: connInv_details)

lemma handleReconnect_lifecycle:
  assumes r: "handleReconnect cid st = Inr st'" and i: "lifecycleInv st"
    and n: "\<forall>ci. map_of (connections st) cid = Some ci \<longrightarrow> \<not> isConnected ci"
  shows "lifecycleInv st'"
proof (cases "map_of (connections st) cid")
  case None
  with r i show ?thesis by (simp add: handleReconnect_def)
next
  case (Some ci)
  with n have nc: "\<not> isConnected ci" by simp
  show ?thesis
  proof (cases "reconnectAttempts ci < MAX_RECONNECT_ATTEMPTS")
    case False
    with r Some have "setStatus cid disconnected st = Inr st'" by (simp add: handleReconnect_def)
    from setStatus_lifecycle(1)[OF this i] show ?thesis .
  next
    case True
    define st1 where "st1 = st \<lparr> connections :=
        AList.update cid (ci \<lparr> reconnectAttempts := reconnectAttempts ci + 1 \<rparr>) (connections st) \<rparr>"
    have i1: "lifecycleInv st1"
      using i nc connInv_conn[OF _ Some, of "connectionDetails (connectionStats st)"
          "ci \<lparr> reconnectAttempts := reconnectAttempts ci + 1 \<rparr>"]
      by (simp add: lifecycleInv_def st1_def)
    from r Some True obtain st2 where s: "setStatus cid reconnecting st1 = Inr st2"
      and e: "st' = st2 \<lparr> reconnectTimers := reconnectTimers st2
          @ [(RECONNECT_DELAY_MS * 2 ^ (reconnectAttempts ci + 1 - 1), cid)] \<rparr>"
      by (auto simp: handleReconnect_def Let_def st1_def split: sum.splits)
    from setStatus_lifecycle(1)[OF s i1] show ?thesis by (simp add: e lifecycleInv_def)
  qed
qed

lemma connectSingle_lifecycle:
  assumes "lifecycleInv st"
  shows "lifecycleInv (connectSingle cid st)"
proof (cases "map_of (connections st) cid")
  case None
  with assms show ?thesis by (simp add: connectSingle_def)
next
  case (Some ci)
  from connInv_lookup[OF assms[unfolded lifecycleInv_def] Some]
  have "isConnected ci \<longrightarrow> reconnectAttempts ci = 0" by simp
  with assms show ?thesis
    using connInv_conn[OF _ Some, of "connectionDetails (connectionStats st)"
        "ci \<lparr> ws := Some (nextSocket st) \<rparr>"]
    by (simp add: connectSingle_def Some lifecycleInv_def)
qed

lemma setupSubscriptions_lifecycle:
  "lifecycleInv (setupSubscriptions cid st) = lifecycleInv st"
  by (simp add: setupSubscriptions_def lifecycleInv_def Let_def split: option.split)

lemma onOpen_lifecycle:
  assumes o: "onOpen cid now st = Inr st'" and i: "lifecycleInv st"
  shows "lifecycleInv st'"
proof (cases "map_of (connections st) cid")
  case None
  with o i show ?thesis by (simp add: onOpen_def)
next
  case (Some ci)
  define st1 where "st1 = updateConnectionStats now (st \<lparr> connections :=
      AList.update cid (ci \<lparr> isConnected := True, reconnectAttempts := 0, lastHeartbeat := now \<rparr>)
        (connections st) \<rparr>)"
  have i1: "lifecycleInv st1"
    unfolding st1_def updateConnectionStats_lifecycle
    using i connInv_conn[OF _ Some, of "connectionDetails (connectionStats st)"
        "ci \<lparr> isConnected := True, reconnectAttempts := 0, lastHeartbeat := now \<rparr>"]
    by (simp add: lifecycleInv_def)
  from o Some obtain st2 where s: "setStatus cid connected st1 = Inr st2"
    and e: "st' = setupSubscriptions cid st2"
    by (auto simp: onOpen_def Let_def st1_def split: sum.splits)
  from setStatus_lifecycle(1)[OF s i1] show ?thesis by (simp add: e setupSubscriptions_lifecycle)
qed

lemma onError_lifecycle:
  assumes "lifecycleInv st"
  shows "lifecycleInv (onError cid st)"
proof (cases "map_of (connections st) cid")
  case None
  with assms show ?thesis by (simp add: onError_def)
next
  case (Some ci)
  with assms show ?thesis
    using connInv_conn[OF _ Some, of "connectionDetails (connectionStats st)"
        "ci \<lparr> isConnected := False \<rparr>"]
    by (simp add: onError_def lifecycleInv_def)
qed

lemma onClose_lifecycle:
  assumes o: "onClose cid now st = Inr st'" and i: "lifecycleInv st"
  shows "lifecycleInv st'"
proof (cases "map_of (connections st) cid")
  case None
  with o i show ?thesis by (simp add: onClose_def)
next
  case (Some ci)
  define st1 where "st1 = updateConnectionStats now (st \<lparr> connections :=
      AList.update cid (ci \<lparr> isConnected := False \<rparr>) (connections st) \<rparr>)"
  have c1: "map_of (connections st1) cid = Some (ci \<lparr> isConnected := False \<rparr>)"
    by (simp add: st1_def updateConnectionStats_def map_of_update_same)
  have i1: "lifecycleInv st1"
    unfolding st1_def updateConnectionStats_lifecycle
    using i connInv_conn[OF _ Some, of "connectionDetails (connectionStats st)"
        "ci \<lparr> isConnected := False \<rparr>"]
    by (simp add: lifecycleInv_def)
  from o Some obtain st2 where s: "setStatus cid disconnected st1 = Inr st2"
    and e: "(if clientMode st2 = continuous then handleReconnect cid st2 else Inr st2) = Inr st'"
    by (auto simp: onClose_def Let_def st1_def split: sum.splits)
  note i2 = setStatus_lifecycle[OF s i1]
  show ?thesis
  proof (cases "clientMode st2 = continuous")
    case False
    with e i2 show ?thesis by simp
  next
    case True
    with e have r: "handleReconnect cid st2 = Inr st'" by simp
    have "\<forall>ci. map_of (connections st2) cid = Some ci \<longrightarrow> \<not> isConnected ci"
      by (simp add: i2(2) c1)
    from handleReconnect_lifecycle[OF r i2(1) this] show ?thesis .
  qed
qed

lemma handleMessage_lifecycle:
  assumes i: "lifecycleInv st"
  shows "lifecycleInv (handleMessage cid parsed now st)"
proof (cases parsed)
  case None
  with i show ?thesis by (simp add: handleMessage_def)
next
  case (Some m)
  show ?thesis
  proof (cases "map_of (connections st) cid")
    case None
    have "connections (handleMessage cid parsed now st) = connections st"
      "connectionDetails (connectionStats (handleMessage cid parsed now st))
         = connectionDetails (connectionStats st)"
      by (cases m; simp add: handleMessage_def Some None Let_def processWebData2Message_frame
          saveData_frame processAllMidsMessage_frame)+
    with i show ?thesis by (simp add: lifecycleInv_def)
  next
    case c: (Some ci)
    from connInv_lookup[OF i[unfolded lifecycleInv_def] c] obtain det
      where f: "isConnected ci \<longrightarrow> reconnectAttempts ci = 0"
        and d: "map_of (connectionDetails (connectionStats st)) cid = Some det" by blast
    have "connections (handleMessage cid parsed now st) =
        AList.update cid (ci \<lparr> lastHeartbeat := now \<rparr>) (connections st)"
      "connectionDetails (connectionStats (handleMessage cid parsed now st)) =
        AList.update cid (det \<lparr> messagesCount := messagesCount det + 1 \<rparr>)
          (connectionDetails (connectionStats st))"
      by (cases m; simp add: handleMessage_def Some c d Let_def processWebData2Message_frame
          saveData_frame processAllMidsMessage_frame)+
    moreover have "connInv (AList.update cid (ci \<lparr> lastHeartbeat := now \<rparr>) (connections st))
        (AList.update cid (det \<lparr> messagesCount := messagesCount det + 1 \<rparr>)
          (connectionDetails (connectionStats st)))"
      using i f by (intro connInv_add) (simp_all add: lifecycleInv_def)
    ultimately show ?thesis by (simp add: lifecycleInv_def)
  qed
qed

lemma checkConnection_lifecycle:
  assumes c: "checkConnection now (Inr st) k = Inr st'" and i: "lifecycleInv st"
  shows "lifecycleInv st'"
proof (cases "map_of (connections st) k")
  case None
  with c i show ?thesis by (simp add: checkConnection_def)
next
  case (Some ci)
  show ?thesis
  proof (cases "unhealthy now ci \<and> clientMode st = continuous")
    case False
    with c Some have "st' = st" by (auto simp: checkConnection_def unhealthy_def split: if_splits)
    with i show ?thesis by simp
  next
    case True
    define st0 where "st0 = st \<lparr> connections :=
        AList.update k (ci \<lparr> isConnected := False \<rparr>) (connections st) \<rparr>"
    have i0: "lifecycleInv st0"
      using i connInv_conn[OF _ Some, of "connectionDetails (connectionStats st)"
          "ci \<lparr> isConnected := False \<rparr>"]
      by (simp add: lifecycleInv_def st0_def)
    have n: "\<forall>ci. map_of (connections st0) k = Some ci \<longrightarrow> \<not> isConnected ci"
      by (simp add: st0_def map_of_update_same)
    from c Some True have "handleReconnect k st0 = Inr st'"
      by (simp add: checkConnection_def unhealthy_def st0_def)
    from handleReconnect_lifecycle[OF this i0 n] show ?thesis .
  qed
qed

lemma foldl_checkConnection_error:
  "foldl (checkConnection now) (Inl e) ks = Inl e"
  by (induction ks) (simp_all add: checkConnection_def)

lemma foldl_checkConnection_lifecycle:
  assumes "foldl (checkConnection now) (Inr st) ks = Inr st'" and "lifecycleInv st"
  shows "lifecycleInv st'"
  using assms
proof (induction ks arbitrary: st)
  case Nil
  then show ?case by simp
next
  case (Cons k ks)
  show ?case
  proof (cases "checkConnection now (Inr st) k")
    case (Inl e)
    with Cons.prems(1) show ?thesis by (simp add: foldl_checkConnection_error)
  next
    case (Inr st1)
    from checkConnection_lifecycle[OF Inr Cons.prems(2)] have "lifecycleInv st1" .
    with Cons.IH[of st1] Cons.prems(1) Inr show ?thesis by simp
  qed
qed

lemma performHealthCheck_lifecycle:
  assumes "performHealthCheck now st = Inr st'" and "lifecycleInv st"
  shows "lifecycleInv st'"
proof -
  from assms(1) obtain st1 where
    f: "foldl (checkConnection now) (Inr st) (map fst (connections st)) = Inr st1"
    and e: "st' = updateConnectionStats now st1"
    by (auto simp: performHealthCheck_def split: sum.splits)
  from foldl_checkConnection_lifecycle[OF f assms(2)] show ?thesis
    by (simp add: e updateConnectionStats_lifecycle)
qed

lemma fireReconnectTimer_lifecycle:
  assumes "lifecycleInv st"
  shows "lifecycleInv (fireReconnectTimer i st)"
proof (cases "i < length (reconnectTimers st)")
  case False
  with assms show ?thesis by (simp add: fireReconnectTimer_def)
next
  case True
  have "lifecycleInv (st \<lparr> reconnectTimers := take i (reconnectTimers st) @ drop (Suc i) (reconnectTimers st) \<rparr>)"
    using assms by (simp add: lifecycleInv_def)
  from connectSingle_lifecycle[OF this] True show ?thesis by (simp add: fireReconnectTimer_def)
qed

lemma disconnect_lifecycle:
  assumes "lifecycleInv st"
  shows "lifecycleInv (disconnect now st)"
proof -
  have k: "map fst (map closeConnection (connections st)) = map fst (connections st)"
    by (simp add: closeConnection_simps)
  have "\<forall>c \<in> set (connections st).
      isConnected (snd (closeConnection c)) \<longrightarrow> reconnectAttempts (snd (closeConnection c)) = 0"
    using assms
    by (auto simp: lifecycleInv_def connInv_def list_all_iff closeConnection_def split: option.splits)
  then have l: "list_all (\<lambda>c. isConnected (snd c) \<longrightarrow> reconnectAttempts (snd c) = 0)
      (map closeConnection (connections st))"
    by (simp add: list_all_iff)
  have c: "connections (disconnect now st) = map closeConnection (connections st)"
    "connectionDetails (connectionStats (disconnect now st)) = connectionDetails (connectionStats st)"
    by (simp_all add: disconnect_def updateConnectionStats_def)
  from assms have "distinct (map fst (connections st))"
    "map fst (connectionDetails (connectionStats st)) = map fst (connections st)"
    by (simp_all add: lifecycleInv_def connInv_def)
  with k l show ?thesis
    unfolding lifecycleInv_def connInv_def c by (simp only: simp_thms)
qed

lemma startHealthCheck_lifecycle:
  "lifecycleInv (startHealthCheck st) = lifecycleInv st"
  by (simp add: lifecycleInv_def startHealthCheck_def)

lemma addConnection_lifecycle:
  "lifecycleInv st \<Longrightarrow> lifecycleInv (addConnection now st g)"
  unfolding lifecycleInv_def addConnection_def Let_def
  by (simp add: connInv_add)

lemma foldl_addConnection_lifecycle:
  "lifecycleInv st \<Longrightarrow> lifecycleInv (foldl (addConnection now) st gs)"
  by (induction gs arbitrary: st) (simp_all add: addConnection_lifecycle)

lemma initializeUser_connections:
  "connections (initializeUser st u) = connections st"
  "connectionStats (initializeUser st u) = connectionStats st"
  by (simp_all add: initializeUser_def Let_def)

lemma initializeUserData_connections:
  "connections (initializeUserData us st) = connections st
   \<and> connectionStats (initializeUserData us st) = connectionStats st"
  unfolding initializeUserData_def
  by (induction us arbitrary: st) (simp_all add: initializeUser_connections)

lemma loadEvent_connections:
  "connections (loadEvent u st ev) = connections st"
  "connectionStats (loadEvent u st ev) = connectionStats st"
  by (simp_all add: loadEvent_def Let_def)

lemma foldl_loadEvent_connections:
  "connections (foldl (loadEvent u) st evs) = connections st
   \<and> connectionStats (foldl (loadEvent u) st evs) = connectionStats st"
  by (induction evs arbitrary: st) (simp_all add: loadEvent_connections)

lemma loadUser_connections:
  "connections (loadUser st u) = connections st \<and> connectionStats (loadUser st u) = connectionStats st"
proof (cases "dataSaveMode st = historical")
  case True
  then show ?thesis
    by (simp add: loadUser_def Let_def split: option.split fileContent.split)
next
  case False
  then show ?thesis
    by (simp add: loadUser_def Let_def foldl_loadEvent_connections
        split: option.split fileContent.split)
qed

lemma foldl_loadUser_connections:
  "connections (foldl loadUser st us) = connections st
   \<and> connectionStats (foldl loadUser st us) = connectionStats st"
  by (induction us arbitrary: st) (simp_all add: loadUser_connections)

lemma newClient_lifecycle:
  assumes "newClient addrs cm dm day now fs = Some st"
  shows "lifecycleInv st"
proof -
  define s1 where "s1 = initializeUserData addrs
      (initializeTokenMapping (emptyClient addrs cm dm day now fs))"
  have "connections s1 = []" "connectionDetails (connectionStats s1) = []"
    by (simp_all add: s1_def initializeUserData_connections initializeTokenMapping_def
        emptyClient_def split: option.split fileContent.split)
  then have i1: "lifecycleInv s1" by (simp add: lifecycleInv_def connInv_def)
  have n: "newClient addrs cm dm day now fs =
      (case setupConnectionGroups MAX_USERS_PER_CONNECTION addrs now s1 of
         None \<Rightarrow> None | Some s \<Rightarrow> Some (loadExistingData s))"
    by (simp add: newClient_def s1_def)
  show ?thesis
  proof (cases "setupConnectionGroups MAX_USERS_PER_CONNECTION addrs now s1")
    case None
    with n assms show ?thesis by simp
  next
    case (Some s2)
    with n assms have e: "st = loadExistingData s2" by simp
    have "lifecycleInv s2"
    proof (cases "groupUsers MAX_USERS_PER_CONNECTION addrs 0 []")
      case None
      with Some show ?thesis by (simp add: setupConnectionGroups_def)
    next
      case g: (Some gs)
      define s where "s = foldl (addConnection now) s1 (zip [0..<length gs] gs)"
      from Some g have "s2 = s \<lparr> connectionStats := (connectionStats s)
          \<lparr> totalConnections := length gs \<rparr> \<rparr>"
        by (simp add: setupConnectionGroups_def Let_def s_def)
      moreover have "lifecycleInv s"
        unfolding s_def by (rule foldl_addConnection_lifecycle[OF i1])
      ultimately show ?thesis by (simp add: lifecycleInv_def)
    qed
    then show ?thesis
      by (simp add: e loadExistingData_def lifecycleInv_def foldl_loadUser_connections)
  qed
qed

lemma reachable_lifecycle: "reachable st \<Longrightarrow> lifecycleInv st"
proof (induction rule: reachable.induct)
  case (constructed addrs cm dm day now fs st)
  then show ?case by (rule newClient_lifecycle)
next
  case (healthCheckStarted st)
  then show ?case by (simp add: startHealthCheck_lifecycle)
next
  case (connecting st connectionId)
  then show ?case by (simp add: connectSingle_lifecycle)
next
  case (opened st connectionId now st')
  then show ?case by (simp add: onOpen_lifecycle)
next
  case (received st connectionId parsed now)
  then show ?case by (simp add: handleMessage_lifecycle)
next
  case (closed st connectionId now st')
  then show ?case by (simp add: onClose_lifecycle)
next
  case (failed st connectionId)
  then show ?case by (simp add: onError_lifecycle)
next
  case (checked st now st')
  then show ?case by (simp add: performHealthCheck_lifecycle)
next
  case (timerFired st i)
  then show ?case by (simp add: fireReconnectTimer_lifecycle)
next
  case (shutDown st now)
  then show ?case by (simp add: disconnect_lifecycle)
next
  case (diskChanged st paths)
  then show ?case by (simp add: lifecycleInv_def)
qed

lemma onOpen_startedClient:
  "onOpen 1 1000 (startedClient cm historical) = Inr (connectedClient cm historical)"
  by (simp add: connectedClient_historical startedClient_historical onOpen_def
      updateConnectionStats_def setStatus_def setupSubscriptions_def Let_def)

lemma startedClient_initial:
  "startedClient cm historical = connectSingle 1 (startHealthCheck (initialClient cm 0 Map.empty))"
  by (simp add: startedClient_def newClient_example)

lemma reachable_connectedClient: "reachable (connectedClient cm historical)"
proof -
  have "reachable (initialClient cm 0 Map.empty)"
    by (rule reachable.constructed[OF newClient_example])
  then have "reachable (startHealthCheck (initialClient cm 0 Map.empty))"
    by (rule reachable.healthCheckStarted)
  then have "reachable (startedClient cm historical)"
    unfolding startedClient_initial by (rule reachable.connecting)
  then show ?thesis by (rule reachable.opened[OF _ onOpen_startedClient])
qed

text \<open>
  Claim C8, amended. In every state the client can reach, a health-check pass finishes,
  and for every connection that is flagged connected and whose last heartbeat is more than
  twice the health-check interval old: in continuous mode the connection is marked
  disconnected and a reconnect is scheduled for it (after the base delay, its attempt
  counter being 0 while it is connected); in \<^verbatim>\<open>oneOff\<close> mode the pass leaves every
  connection as it was (still flagged connected) and schedules nothing.
\<close>

theorem healthCheck_unhealthy:
  assumes "reachable st" and "map_of (connections st) cid = Some ci"
    and "isConnected ci" and "now - lastHeartbeat ci > HEALTH_CHECK_INTERVAL * 2"
  shows "\<exists>st'. performHealthCheck now st = Inr st'
     \<and> (clientMode st = continuous \<longrightarrow>
          (\<exists>ci'. map_of (connections st') cid = Some ci' \<and> \<not> isConnected ci')
          \<and> (RECONNECT_DELAY_MS, cid) \<in> set (reconnectTimers st'))
     \<and> (clientMode st = oneOff \<longrightarrow>
          connections st' = connections st \<and> reconnectTimers st' = reconnectTimers st)"
proof -
  from reachable_lifecycle[OF assms(1)]
  have i: "connInv (connections st) (connectionDetails (connectionStats st))"
    by (simp add: lifecycleInv_def)
  then have d: "distinct (map fst (connections st))"
    and k: "map fst (connectionDetails (connectionStats st)) = map fst (connections st)"
    by (simp_all add: connInv_def)
  have dc: "detailsComplete st"
    unfolding detailsComplete_def list_all_iff
  proof
    fix x assume "x \<in> set (map fst (connections st))"
    then have "x \<in> fst ` set (connectionDetails (connectionStats st))" by (simp add: k[symmetric])
    then show "map_of (connectionDetails (connectionStats st)) x \<noteq> None"
      by (simp add: map_of_eq_None_iff)
  qed
  from connInv_lookup[OF i assms(2)] assms(3) have z: "reconnectAttempts ci = 0" by simp
  from healthCheck_general[OF d dc assms(2,3,4)] show ?thesis
    by (simp add: z MAX_RECONNECT_ATTEMPTS_def)
qed

theorem healthCheck_unhealthy_witness:
  "reachable (connectedClient continuous historical)
   \<and> map_of (connections (connectedClient continuous historical)) 1 =
       Some \<lparr> ws = Some 0, userAddresses = [''0xAb''], isConnected = True,
              reconnectAttempts = 0, lastHeartbeat = 1000,
              subscriptionTypes = [webData2, allMids] \<rparr>
   \<and> 100000 - 1000 > HEALTH_CHECK_INTERVAL * 2
   \<and> clientMode (connectedClient continuous historical) = continuous
   \<and> (case performHealthCheck 100000 (connectedClient continuous historical) of
         Inl _ \<Rightarrow> False
       | Inr st' \<Rightarrow> (5000, 1) \<in> set (reconnectTimers st')
           \<and> map_option isConnected (map_of (connections st') 1) = Some False)"
proof -
  note f = connectedClient_fields[of continuous]
  have c: "isConnected \<lparr> ws = Some 0, userAddresses = [''0xAb''], isConnected = True,
              reconnectAttempts = 0, lastHeartbeat = 1000,
              subscriptionTypes = [webData2, allMids] \<rparr>" by simp
  have d: "100000 - lastHeartbeat \<lparr> ws = Some 0, userAddresses = [''0xAb''], isConnected = True,
              reconnectAttempts = 0, lastHeartbeat = 1000,
              subscriptionTypes = [webData2, allMids] \<rparr> > HEALTH_CHECK_INTERVAL * 2"
    by (simp add: HEALTH_CHECK_INTERVAL_def)
  have d': "(100000::int) - 1000 > HEALTH_CHECK_INTERVAL * 2"
    by (simp add: HEALTH_CHECK_INTERVAL_def)
  from healthCheck_unhealthy[OF reachable_connectedClient f(1) c d]
  obtain st' ci' where e: "performHealthCheck 100000 (connectedClient continuous historical) = Inr st'"
    and x: "map_of (connections st') 1 = Some ci'" "\<not> isConnected ci'"
    and y: "(RECONNECT_DELAY_MS, 1) \<in> set (reconnectTimers st')"
    using f(4) by auto
  from y have y': "(5000, 1) \<in> set (reconnectTimers st')" by (simp add: RECONNECT_DELAY_MS_def)
  have r: "(case performHealthCheck 100000 (connectedClient continuous historical) of
         Inl _ \<Rightarrow> False
       | Inr st' \<Rightarrow> (5000, 1) \<in> set (reconnectTimers st')
           \<and> map_option isConnected (map_of (connections st') 1) = Some False)"
    using x y' by (simp add: e)
  from reachable_connectedClient[of continuous] f(1) d' f(4) r show ?thesis by blast
qed


section \<open>Persisted history and lowest record: properties\<close>

































































end
